theory Spec2Isabelle
  imports Complex_Main
begin

section \<open>Data model: assignments and configuration\<close>

text \<open>
  The enumerations and interfaces of the type definitions. String unions become
  datatypes, interfaces become records. By its type \<open>available_agents\<close> holds codex and
  gemini only; the set type of the model also admits claude, at which the resolver
  never looks.
\<close>

datatype Verdict = Proceed | Proceed_with_changes | Block

datatype AgentEngine = Codex | Gemini | Claude

datatype AgentRole = Devils_advocate | Architecture_critic | Pragmatist

datatype Via = Subprocess | Subagent_prompt

datatype Status = Completed | Timeout | Error

datatype Mode = Auto | Standard

record AgentAssignment =
  role :: AgentRole
  engine :: AgentEngine
  model :: string
  via :: Via

record RuntimeConfig =
  available_agents :: "AgentEngine set"
  timeout_seconds :: real
  auto_trigger_patterns :: "string list"
  default_mode :: Mode
  repo_root :: string

text \<open>The constant table \<open>MODELS\<close>.\<close>

definition MODELS :: "AgentEngine \<Rightarrow> string" where
  "MODELS e = (case e of
      Codex \<Rightarrow> ''gpt-5.3-codex''
    | Gemini \<Rightarrow> ''gemini-3-pro-preview''
    | Claude \<Rightarrow> ''claude-opus-4-6'')"

section \<open>Agent resolver\<close>

text \<open>
  \<open>resolveAgents\<close> reads only \<open>config.available_agents\<close>, with \<open>Set.has\<close> as set
  membership, and returns one of four literal arrays.
\<close>

definition resolveAgents :: "RuntimeConfig \<Rightarrow> AgentAssignment list" where
  "resolveAgents config =
    (let hasCodex = (Codex \<in> available_agents config);
         hasGemini = (Gemini \<in> available_agents config)
     in
     if hasCodex \<and> hasGemini then
       [\<lparr>role = Devils_advocate, engine = Codex,
          model = MODELS Codex, via = Subprocess\<rparr>,
        \<lparr>role = Architecture_critic, engine = Gemini,
          model = MODELS Gemini, via = Subprocess\<rparr>,
        \<lparr>role = Pragmatist, engine = Claude,
          model = MODELS Claude, via = Subagent_prompt\<rparr>]
     else if hasCodex then
       [\<lparr>role = Devils_advocate, engine = Codex,
          model = MODELS Codex, via = Subprocess\<rparr>,
        \<lparr>role = Architecture_critic, engine = Claude,
          model = MODELS Claude, via = Subagent_prompt\<rparr>,
        \<lparr>role = Pragmatist, engine = Claude,
          model = MODELS Claude, via = Subagent_prompt\<rparr>]
     else if hasGemini then
       [\<lparr>role = Devils_advocate, engine = Gemini,
          model = MODELS Gemini, via = Subprocess\<rparr>,
        \<lparr>role = Architecture_critic, engine = Claude,
          model = MODELS Claude, via = Subagent_prompt\<rparr>,
        \<lparr>role = Pragmatist, engine = Claude,
          model = MODELS Claude, via = Subagent_prompt\<rparr>]
     else
       [\<lparr>role = Devils_advocate, engine = Claude,
          model = MODELS Claude, via = Subagent_prompt\<rparr>,
        \<lparr>role = Architecture_critic, engine = Claude,
          model = MODELS Claude, via = Subagent_prompt\<rparr>,
        \<lparr>role = Pragmatist, engine = Claude,
          model = MODELS Claude, via = Subagent_prompt\<rparr>])"

section \<open>Data model: payloads, verdicts, review input\<close>

text \<open>
  Values of type \<open>unknown\<close> that come out of \<open>JSON.parse\<close>: the JSON value tree. An
  object keeps its members in the order of the text.

  Numbers are the finite numbers, idealised as exact reals. Two things the doubles of
  the program do are therefore outside the model: rounding error (where the exact
  value sits at or next to a tie of \<open>Math.round\<close>, the program can land one hundredth
  away from the model), and the values \<open>Infinity\<close> and \<open>NaN\<close>. \<open>JSON.parse\<close> yields
  \<open>Infinity\<close> for a literal beyond the range of the doubles, such as \<open>1e999\<close>, so a
  payload can carry it. Statements about numbers below are made for ranges in which
  they hold of the doubles as well.
\<close>

datatype json =
    JNull
  | JBool bool
  | JNumber real
  | JString string
  | JArray "json list"
  | JObject "(string \<times> json) list"

text \<open>
  \<open>duration_ms\<close>, a wall-clock measurement, is left out of the verdict record.
  \<open>raw_output\<close> is the parsed payload or \<open>null\<close> (\<open>JNull\<close>). Records share field names
  (\<open>role\<close>, \<open>engine\<close>, \<open>model\<close>, \<open>verdict\<close>, \<open>confidence\<close>), so from here on a field is
  written with its record's name in front.
\<close>

record AgentVerdict =
  role :: AgentRole
  engine :: AgentEngine
  model :: string
  verdict :: Verdict
  confidence :: real
  raw_output :: json
  status :: Status
  error :: "string option"

record Consensus =
  verdict :: Verdict
  confidence :: real
  critical_issues :: "string list"
  recommendations :: "string list"

datatype Severity = High | Critical | Blocker

record ReviewInput =
  task_description :: string
  proposed_changes :: string
  affected_files :: "string list"
  severity :: Severity
  context_files :: "string list option"
  mode :: "Mode option"

record SubagentSpawnInstruction =
  role :: AgentRole
  model :: string
  prompt :: string
  tools :: "string list"

section \<open>JavaScript values\<close>

text \<open>
  Property access \<open>o.k\<close> on a value that is not \<open>null\<close>: \<open>None\<close> is \<open>undefined\<close>. When a
  JSON text repeats a key the last member wins. None of the keys read by this program
  exists on arrays, strings, numbers or booleans.
\<close>

definition property :: "json \<Rightarrow> string \<Rightarrow> json option" where
  "property j k = (case j of JObject members \<Rightarrow> map_of (rev members) k | _ \<Rightarrow> None)"

definition typeof :: "json \<Rightarrow> string" where
  "typeof j = (case j of
      JNull \<Rightarrow> ''object''
    | JBool _ \<Rightarrow> ''boolean''
    | JNumber _ \<Rightarrow> ''number''
    | JString _ \<Rightarrow> ''string''
    | JArray _ \<Rightarrow> ''object''
    | JObject _ \<Rightarrow> ''object'')"

definition truthy :: "json \<Rightarrow> bool" where
  "truthy j = (case j of
      JNull \<Rightarrow> False
    | JBool b \<Rightarrow> b
    | JNumber n \<Rightarrow> n \<noteq> 0
    | JString s \<Rightarrow> s \<noteq> []
    | JArray _ \<Rightarrow> True
    | JObject _ \<Rightarrow> True)"

text \<open>\<open>Array.isArray(o.k)\<close>, as the elements when it holds.\<close>

definition array_property :: "json \<Rightarrow> string \<Rightarrow> json list option" where
  "array_property j k = (case property j k of Some (JArray xs) \<Rightarrow> Some xs | _ \<Rightarrow> None)"

text \<open>The nullish coalescing operator \<open>a ?? b\<close>.\<close>

definition coalesce :: "json option \<Rightarrow> json option \<Rightarrow> json option" where
  "coalesce a b = (case a of None \<Rightarrow> b | Some JNull \<Rightarrow> b | Some v \<Rightarrow> Some v)"

text \<open>\<open>[...new Set(xs)]\<close>: the distinct elements in order of first occurrence.\<close>

definition dedup :: "string list \<Rightarrow> string list" where
  "dedup xs = foldl (\<lambda>seen x. if x \<in> set seen then seen else seen @ [x]) [] xs"

text \<open>\<open>Math.round\<close>: the nearest integer, a tie going up.\<close>

definition Math_round :: "real \<Rightarrow> real" where
  "Math_round x = real_of_int \<lfloor>x + 1 / 2\<rfloor>"

section \<open>Strings and exceptions\<close>

text \<open>
  Strings are lists of 8-bit characters: the model agrees with the program on ASCII
  text, where a character is one UTF-16 code unit. White space is the ASCII part of
  what \<open>trim\<close> and the class \<open>\s\<close> accept: tab, line feed, vertical tab, form feed,
  carriage return and space.
\<close>

definition is_space :: "char \<Rightarrow> bool" where
  "is_space c = (c \<in> set [CHR 0x09, CHR 0x0A, CHR 0x0B, CHR 0x0C, CHR 0x0D, CHR 0x20])"

definition trim_end :: "string \<Rightarrow> string" where
  "trim_end s = rev (dropWhile is_space (rev s))"

definition trim :: "string \<Rightarrow> string" where
  "trim s = trim_end (dropWhile is_space s)"

definition lower :: "char \<Rightarrow> char" where
  "lower c = (let n = (of_char c :: nat) in if 65 \<le> n \<and> n \<le> 90 then char_of (n + 32) else c)"

text \<open>
  A thrown value: what the handlers of this program read of it (\<open>killed\<close>, which is
  absent, so falsy, on everything but a child-process error, and \<open>message\<close>) and its
  \<open>name\<close>, which \<open>Error.prototype.toString\<close> prints.
\<close>

datatype exn = Exn (killed: bool) (name: string) (message: string)

definition exn_toString :: "exn \<Rightarrow> string" where
  "exn_toString e =
    (if name e = [] then message e
     else if message e = [] then name e
     else name e @ '': '' @ message e)"

text \<open>
  Property access that throws on \<open>null\<close>, as \<open>parsed.verdict\<close> does when \<open>parsed\<close> is
  \<open>null\<close> (the message is V8's).
\<close>

definition get_property :: "json \<Rightarrow> string \<Rightarrow> exn + json option" where
  "get_property j k =
    (if j = JNull
     then Inl (Exn False ''TypeError''
            (''Cannot read properties of null (reading '' @ [CHR 0x27] @ k @ [CHR 0x27] @ '')''))
     else Inr (property j k))"

text \<open>The message of that error when the property read is \<open>verdict\<close>.\<close>

definition null_message :: string where
  "null_message = ''Cannot read properties of null (reading '' @ [CHR 0x27] @ ''verdict''
     @ [CHR 0x27] @ '')''"

section \<open>Response normalizer\<close>

definition ROLE_LABELS_label :: "AgentRole \<Rightarrow> string" where
  "ROLE_LABELS_label r = (case r of
      Devils_advocate \<Rightarrow> ''Devil'' @ [CHR 0x27] @ ''s Advocate''
    | Architecture_critic \<Rightarrow> ''Architecture Critic''
    | Pragmatist \<Rightarrow> ''Pragmatist'')"

text \<open>
  \<open>.replace(/^```(?:json)?\s*/i, '')\<close>: at the start of the string only, three
  backticks, then \<open>json\<close> in any case when it follows, then all white space.
\<close>

definition strip_leading_fence :: "string \<Rightarrow> string" where
  "strip_leading_fence s =
    (if take 3 s = ''```''
     then (let r = drop 3 s;
               r' = (if map lower (take 4 r) = ''json'' then drop 4 r else r)
           in dropWhile is_space r')
     else s)"

text \<open>
  \<open>.replace(/\s*```\s*$/i, '')\<close>: the leftmost match is the longest suffix made of
  white space, three backticks and white space up to the end of the string.
\<close>

definition strip_trailing_fence :: "string \<Rightarrow> string" where
  "strip_trailing_fence s =
    (let t = trim_end s in
     if take 3 (rev t) = ''```'' then trim_end (rev (drop 3 (rev t))) else s)"

definition cleaned :: "string \<Rightarrow> string" where
  "cleaned output = trim (strip_trailing_fence (strip_leading_fence (trim output)))"

text \<open>
  \<open>cleaned.match(/\{[\s\S]*\}/)\<close>: the star is greedy, so the match starts at the first
  opening brace and ends at the last closing brace after it; \<open>None\<close> is \<open>null\<close>.
\<close>

definition match_braces :: "string \<Rightarrow> string option" where
  "match_braces s =
    (let from_open = dropWhile (\<lambda>c. c \<noteq> CHR ''{'') s;
         to_close = rev (dropWhile (\<lambda>c. c \<noteq> CHR ''}'') (rev from_open))
     in if to_close = [] then None else Some to_close)"

definition fallback_payload :: "AgentRole \<Rightarrow> string \<Rightarrow> json" where
  "fallback_payload for_role output =
    JObject
     [(''verdict'', JString ''proceed_with_changes''),
      (''confidence'', JNumber (4 / 10)),
      (''reasoning'', JString (''['' @ ROLE_LABELS_label for_role
          @ ''] Raw output (could not parse as JSON): '' @ take 500 output)),
      (''critical_issues'', JArray []),
      (''recommendations'', JArray [])]"

text \<open>
  \<open>parseAgentOutput\<close>, with \<open>JSON.parse\<close> as the parameter \<open>parse\<close>: \<open>Inl\<close> is the
  exception it throws. The two \<open>try\<close> blocks are the two case distinctions on its
  result; the sum type of the result shows what leaves the function.
\<close>

definition parseAgentOutput ::
  "(string \<Rightarrow> exn + json) \<Rightarrow> string \<Rightarrow> AgentRole \<Rightarrow> exn + json" where
  "parseAgentOutput parse output for_role =
    (case parse (cleaned output) of
       Inr parsed \<Rightarrow> Inr parsed
     | Inl _ \<Rightarrow>
        (case (case match_braces (cleaned output) of
                 None \<Rightarrow> None
               | Some jsonMatch \<Rightarrow>
                   (case parse jsonMatch of Inr parsed \<Rightarrow> Some parsed | Inl _ \<Rightarrow> None)) of
           Some parsed \<Rightarrow> Inr parsed
         | None \<Rightarrow> Inr (fallback_payload for_role output)))"

section \<open>Agent invoker\<close>

text \<open>
  What the invoker takes from outside the program: \<open>JSON.parse\<close>; the settled result
  of \<open>execFileAsync(cmd, args, {cwd, timeout, ...})\<close>, which is its \<open>stdout\<close> or the error
  it rejects with; the prompt builder, which reads template files; and the text a
  number becomes in a template literal (\<open>Number_toString\<close>). Node sets \<open>killed\<close> on the
  error when \<open>execFile\<close> itself killed the child, which with these options it does at
  the timeout: a timeout is an error with \<open>killed\<close> set.
\<close>

record platform =
  JSON_parse :: "string \<Rightarrow> exn + json"
  execFileAsync :: "string \<Rightarrow> string list \<Rightarrow> string \<Rightarrow> real \<Rightarrow> exn + string"
  buildPrompt :: "AgentRole \<Rightarrow> ReviewInput \<Rightarrow> string"
  Number_toString :: "real \<Rightarrow> string"

definition buildStructuredPrompt :: "platform \<Rightarrow> AgentRole \<Rightarrow> ReviewInput \<Rightarrow> string" where
  "buildStructuredPrompt js for_role input =
    buildPrompt js for_role input @ [CHR 0x0A, CHR 0x0A]
      @ ''IMPORTANT: Respond ONLY with valid JSON. No markdown fences, no preamble, ''
      @ ''no explanation outside the JSON structure. The response must start with { ''
      @ ''and end with }.''"

definition engine_name :: "AgentEngine \<Rightarrow> string" where
  "engine_name e = (case e of Codex \<Rightarrow> ''codex'' | Gemini \<Rightarrow> ''gemini'' | Claude \<Rightarrow> ''claude'')"

text \<open>
  \<open>isVerdict(parsed.verdict) ? parsed.verdict : 'proceed_with_changes'\<close>, on the value of
  the property (\<open>None\<close> is \<open>undefined\<close>): a string of \<open>VALID_VERDICTS\<close> is kept.
\<close>

definition VALID_VERDICTS :: "(string \<times> Verdict) list" where
  "VALID_VERDICTS =
    [(''proceed'', Proceed), (''proceed_with_changes'', Proceed_with_changes), (''block'', Block)]"

definition isVerdict :: "json option \<Rightarrow> bool" where
  "isVerdict v = (case v of Some (JString s) \<Rightarrow> s \<in> set (map fst VALID_VERDICTS) | _ \<Rightarrow> False)"

definition verdict_field :: "json option \<Rightarrow> Verdict" where
  "verdict_field v =
    (if isVerdict v
     then (case v of Some (JString s) \<Rightarrow>
             (case map_of VALID_VERDICTS s of Some d \<Rightarrow> d | None \<Rightarrow> Proceed_with_changes)
           | _ \<Rightarrow> Proceed_with_changes)
     else Proceed_with_changes)"

text \<open>\<open>typeof parsed.confidence === 'number' ? parsed.confidence : 0.5\<close>.\<close>

definition confidence_field :: "json option \<Rightarrow> real" where
  "confidence_field v = (case v of Some (JNumber n) \<Rightarrow> n | _ \<Rightarrow> 5 / 10)"

text \<open>The command line for an engine; any engine but codex and gemini throws.\<close>

definition command_line :: "AgentEngine \<Rightarrow> string \<Rightarrow> exn + string \<times> string list" where
  "command_line e prompt_text =
    (if e = Codex then
       Inr (''npx'', [''codex'', ''exec'', ''--model'', MODELS Codex,
                     ''--model-reasoning-effort'', ''high'', ''-q'', prompt_text])
     else if e = Gemini then
       Inr (''gemini'', [''-p'', prompt_text, ''--model'', MODELS Gemini,
                        ''--output-format'', ''json'', ''--sandbox''])
     else Inl (Exn False ''Error'' (''Unsupported external engine: '' @ engine_name e)))"

text \<open>The body of the \<open>try\<close> block: \<open>Inl\<close> is what it throws to the \<open>catch\<close>.\<close>

definition invoke_try ::
  "platform \<Rightarrow> AgentAssignment \<Rightarrow> RuntimeConfig \<Rightarrow> string \<Rightarrow> string list \<Rightarrow> exn + AgentVerdict" where
  "invoke_try js assignment config cmd args =
    (case execFileAsync js cmd args (repo_root config) (timeout_seconds config * 1000) of
       Inl err \<Rightarrow> Inl err
     | Inr stdout \<Rightarrow>
        (case parseAgentOutput (JSON_parse js) stdout (AgentAssignment.role assignment) of
           Inl err \<Rightarrow> Inl err
         | Inr parsed \<Rightarrow>
            (case get_property parsed ''verdict'' of
               Inl err \<Rightarrow> Inl err
             | Inr parsed_verdict \<Rightarrow>
                (case get_property parsed ''confidence'' of
                   Inl err \<Rightarrow> Inl err
                 | Inr parsed_confidence \<Rightarrow>
                    Inr \<lparr>AgentVerdict.role = AgentAssignment.role assignment,
                         AgentVerdict.engine = AgentAssignment.engine assignment,
                         AgentVerdict.model = AgentAssignment.model assignment,
                         AgentVerdict.verdict = verdict_field parsed_verdict,
                         AgentVerdict.confidence = confidence_field parsed_confidence,
                         raw_output = parsed,
                         status = Completed,
                         error = None\<rparr>))))"

text \<open>The \<open>catch\<close> block.\<close>

definition invoke_catch ::
  "platform \<Rightarrow> AgentAssignment \<Rightarrow> RuntimeConfig \<Rightarrow> exn \<Rightarrow> AgentVerdict" where
  "invoke_catch js assignment config err =
    \<lparr>AgentVerdict.role = AgentAssignment.role assignment,
     AgentVerdict.engine = AgentAssignment.engine assignment,
     AgentVerdict.model = AgentAssignment.model assignment,
     AgentVerdict.verdict = Proceed_with_changes,
     AgentVerdict.confidence = 3 / 10,
     raw_output = JNull,
     status = (if killed err then Timeout else Error),
     error = Some (if killed err
                   then ''Agent timed out after ''
                          @ Number_toString js (timeout_seconds config) @ ''s''
                   else ''Agent failed: '' @ message err)\<rparr>"

text \<open>
  \<open>invokeExternal\<close>: \<open>Inl\<close> is a rejected promise, which only the \<open>throw\<close> before the
  \<open>try\<close> block produces.
\<close>

definition invokeExternal ::
  "platform \<Rightarrow> AgentAssignment \<Rightarrow> ReviewInput \<Rightarrow> RuntimeConfig \<Rightarrow> exn + AgentVerdict" where
  "invokeExternal js assignment input config =
    (let prompt_text = buildStructuredPrompt js (AgentAssignment.role assignment) input in
     case command_line (AgentAssignment.engine assignment) prompt_text of
       Inl thrown \<Rightarrow> Inl thrown
     | Inr (cmd, args) \<Rightarrow>
        (case invoke_try js assignment config cmd args of
           Inr result \<Rightarrow> Inr result
         | Inl err \<Rightarrow> Inr (invoke_catch js assignment config err)))"

definition buildSubagentInstruction ::
  "platform \<Rightarrow> AgentAssignment \<Rightarrow> ReviewInput \<Rightarrow> SubagentSpawnInstruction" where
  "buildSubagentInstruction js assignment input =
    \<lparr>SubagentSpawnInstruction.role = AgentAssignment.role assignment,
     SubagentSpawnInstruction.model = ''opus'',
     prompt = buildPrompt js (AgentAssignment.role assignment) input,
     tools = [''Read'', ''Glob'', ''Grep'']\<rparr>"

text \<open>
  The verdict \<open>executeAgents\<close> makes of one settled promise: the value of a fulfilled
  one, a synthesized verdict for a rejected one.
\<close>

definition settled_verdict :: "AgentAssignment \<Rightarrow> exn + AgentVerdict \<Rightarrow> AgentVerdict" where
  "settled_verdict assignment result =
    (case result of
       Inr fulfilled \<Rightarrow> fulfilled
     | Inl reason \<Rightarrow>
        \<lparr>AgentVerdict.role = AgentAssignment.role assignment,
         AgentVerdict.engine = AgentAssignment.engine assignment,
         AgentVerdict.model = AgentAssignment.model assignment,
         AgentVerdict.verdict = Proceed_with_changes,
         AgentVerdict.confidence = 3 / 10,
         raw_output = JNull,
         status = Error,
         error = Some (''Unexpected failure: '' @ exn_toString reason)\<rparr>)"

text \<open>
  \<open>executeAgents\<close>: \<open>Promise.allSettled\<close> waits for every invocation and keeps the
  results in the order of the assignments; the invocations share no state, so the join
  is a map over the subprocess assignments.
\<close>

definition executeAgents ::
  "platform \<Rightarrow> AgentAssignment list \<Rightarrow> ReviewInput \<Rightarrow> RuntimeConfig
    \<Rightarrow> AgentVerdict list \<times> SubagentSpawnInstruction list" where
  "executeAgents js assignments input config =
    (let externalAssignments = filter (\<lambda>a. via a = Subprocess) assignments;
         claudeAssignments = filter (\<lambda>a. via a = Subagent_prompt) assignments;
         externalResults = map (\<lambda>a. invokeExternal js a input config) externalAssignments;
         verdicts = map (\<lambda>(a, result). settled_verdict a result)
                      (zip externalAssignments externalResults);
         subagent_prompts = map (\<lambda>a. buildSubagentInstruction js a input) claudeAssignments
     in (verdicts, subagent_prompts))"

section \<open>Result merger\<close>

text \<open>
  The two text conversions of the platform that the merger calls are parameters:
  \<open>stringify\<close> is \<open>JSON.stringify\<close> and \<open>toStr\<close> is \<open>String(x)\<close>, also the conversion of
  a template literal's hole (\<open>None\<close> is \<open>undefined\<close>).
\<close>

definition issue_title :: "(json \<Rightarrow> string) \<Rightarrow> (json option \<Rightarrow> string) \<Rightarrow> json \<Rightarrow> string" where
  "issue_title stringify toStr issue =
    toStr (coalesce (coalesce (property issue ''title'') (property issue ''description''))
             (Some (JString (stringify issue))))"

definition is_object :: "json \<Rightarrow> bool" where
  "is_object j = (typeof j = ''object'' \<and> j \<noteq> JNull)"

definition strings_or_titles ::
  "(json \<Rightarrow> string) \<Rightarrow> (json option \<Rightarrow> string) \<Rightarrow> json list \<Rightarrow> string list" where
  "strings_or_titles stringify toStr items =
    concat (map (\<lambda>item.
      case item of JString s \<Rightarrow> [s]
      | _ \<Rightarrow> if is_object item then [issue_title stringify toStr item] else []) items)"

definition titles :: "(json \<Rightarrow> string) \<Rightarrow> (json option \<Rightarrow> string) \<Rightarrow> json list \<Rightarrow> string list" where
  "titles stringify toStr items =
    concat (map (\<lambda>item. if is_object item then [issue_title stringify toStr item] else []) items)"

definition phases :: "(json option \<Rightarrow> string) \<Rightarrow> json list \<Rightarrow> string list" where
  "phases toStr items =
    concat (map (\<lambda>phase.
      if is_object phase
      then [''Phase '' @ toStr (property phase ''phase'') @ '': ''
              @ toStr (coalesce (property phase ''title'') (property phase ''scope''))]
      else []) items)"

definition skipped :: "AgentVerdict \<Rightarrow> bool" where
  "skipped v = (if truthy (raw_output v) then typeof (raw_output v) \<noteq> ''object'' else True)"

definition extractCriticalIssues ::
  "(json \<Rightarrow> string) \<Rightarrow> (json option \<Rightarrow> string) \<Rightarrow> AgentVerdict list \<Rightarrow> string list" where
  "extractCriticalIssues stringify toStr verdicts =
    dedup (concat (map (\<lambda>v.
      if skipped v then []
      else (case array_property (raw_output v) ''critical_issues'' of
              Some items \<Rightarrow> strings_or_titles stringify toStr items | None \<Rightarrow> [])
         @ (case array_property (raw_output v) ''structural_issues'' of
              Some items \<Rightarrow> titles stringify toStr items | None \<Rightarrow> [])) verdicts))"

definition extractRecommendations ::
  "(json \<Rightarrow> string) \<Rightarrow> (json option \<Rightarrow> string) \<Rightarrow> AgentVerdict list \<Rightarrow> string list" where
  "extractRecommendations stringify toStr verdicts =
    dedup (concat (map (\<lambda>v.
      if skipped v then []
      else (case array_property (raw_output v) ''recommendations'' of
              Some items \<Rightarrow> strings_or_titles stringify toStr items | None \<Rightarrow> [])
         @ (case array_property (raw_output v) ''phasing_suggestion'' of
              Some items \<Rightarrow> phases toStr items | None \<Rightarrow> [])) verdicts))"

text \<open>The tally loop: \<open>counts[v.verdict]++\<close> over the completed verdicts, from all zero.\<close>

definition count_verdicts :: "AgentVerdict list \<Rightarrow> Verdict \<Rightarrow> nat" where
  "count_verdicts completed =
    fold (\<lambda>v counts. counts(AgentVerdict.verdict v := counts (AgentVerdict.verdict v) + 1))
      completed (\<lambda>_. 0)"

text \<open>The five-way chain on the tally.\<close>

definition overall_verdict :: "(Verdict \<Rightarrow> nat) \<Rightarrow> Verdict" where
  "overall_verdict counts =
    (if counts Block \<ge> 2 then Block
     else if counts Block = 1 \<and> counts Proceed_with_changes \<ge> 1 then Proceed_with_changes
     else if counts Block = 1 then Proceed_with_changes
     else if counts Proceed_with_changes \<ge> 1 then Proceed_with_changes
     else Proceed)"

text \<open>
  The weighting loop, which runs over the completed verdicts, as the pair
  (\<open>totalWeight\<close>, \<open>weightedConfidence\<close>), and the rounding that follows it.
\<close>

definition weigh :: "AgentVerdict list \<Rightarrow> real \<times> real" where
  "weigh completed =
    fold (\<lambda>v (totalWeight, weightedConfidence).
        let weight = (if status v = Completed then 1 else 3 / 10)
        in (totalWeight + weight, weightedConfidence + AgentVerdict.confidence v * weight))
      completed (0, 0)"

definition rounded_confidence :: "real \<times> real \<Rightarrow> real" where
  "rounded_confidence totals =
    (case totals of (totalWeight, weightedConfidence) \<Rightarrow>
       if totalWeight > 0 then Math_round ((weightedConfidence / totalWeight) * 100) / 100
       else 1 / 2)"

text \<open>The one literal of the source outside ASCII, an em dash, as its UTF-8 bytes.\<close>

definition em_dash :: string where
  "em_dash = [CHR 0xE2, CHR 0x80, CHR 0x94]"

definition computeConsensus ::
  "(json \<Rightarrow> string) \<Rightarrow> (json option \<Rightarrow> string) \<Rightarrow> AgentVerdict list \<Rightarrow> Consensus" where
  "computeConsensus stringify toStr verdicts =
    (let completed = filter (\<lambda>v. status v = Completed) verdicts in
     if length completed = 0 then
       \<lparr>Consensus.verdict = Proceed_with_changes,
        Consensus.confidence = 2 / 10,
        critical_issues =
          [''All agents failed or timed out '' @ em_dash @ '' proceed with extreme caution''],
        recommendations = [''Re-run the protocol or manually review the changes'']\<rparr>
     else
       \<lparr>Consensus.verdict = overall_verdict (count_verdicts completed),
        Consensus.confidence = rounded_confidence (weigh completed),
        critical_issues = extractCriticalIssues stringify toStr verdicts,
        recommendations = extractRecommendations stringify toStr verdicts\<rparr>)"

section \<open>The specification's formulas\<close>

text \<open>
  Two formulas written from the words of the specification, to compare with what the
  code computes. The confidence of the specification: the mean over every input verdict,
  a completed one weighing 1 and any other 0.3, rounded to two decimals, and 0.5 when
  the total weight is 0.
\<close>

definition spec_weight :: "AgentVerdict \<Rightarrow> real" where
  "spec_weight v = (if status v = Completed then 1 else 3 / 10)"

definition spec_confidence :: "AgentVerdict list \<Rightarrow> real" where
  "spec_confidence verdicts =
    (let total = sum_list (map spec_weight verdicts);
         weighted = sum_list (map (\<lambda>v. AgentVerdict.confidence v * spec_weight v) verdicts)
     in if total = 0 then 1 / 2 else Math_round (weighted / total * 100) / 100)"



section \<open>An example platform\<close>

text \<open>
  For the examples only (every general theorem below holds for any \<open>JSON.parse\<close>): a
  parser of the JSON grammar on ASCII text. It reads a value by recursive descent, with
  the length of the text plus one as fuel; a \<open>\u\<close> escape above 255 is outside the
  model's characters and is refused, and a number is read as its exact value, also
  beyond the range of the doubles, where \<open>JSON.parse\<close> yields \<open>Infinity\<close>. The examples
  use it on the texts written out in them.
\<close>

definition json_space :: "char \<Rightarrow> bool" where
  "json_space c = (c \<in> set [CHR 0x20, CHR 0x09, CHR 0x0A, CHR 0x0D])"

definition skip_ws :: "string \<Rightarrow> string" where
  "skip_ws s = dropWhile json_space s"

definition is_digit :: "char \<Rightarrow> bool" where
  "is_digit c = (48 \<le> (of_char c :: nat) \<and> (of_char c :: nat) \<le> 57)"

definition digits_value :: "string \<Rightarrow> nat" where
  "digits_value ds = foldl (\<lambda>n c. 10 * n + (of_char c - 48)) 0 ds"

definition parse_number :: "string \<Rightarrow> (real \<times> string) option" where
  "parse_number cs =
    (let negative = (take 1 cs = ''-'');
         r0 = (if negative then drop 1 cs else cs);
         int_part = takeWhile is_digit r0;
         r1 = dropWhile is_digit r0;
         has_frac = (take 1 r1 = ''.'');
         frac_part = (if has_frac then takeWhile is_digit (drop 1 r1) else []);
         r2 = (if has_frac then dropWhile is_digit (drop 1 r1) else r1);
         has_exp = (take 1 r2 = ''e'' \<or> take 1 r2 = ''E'');
         r3 = (if has_exp then drop 1 r2 else r2);
         exp_negative = (has_exp \<and> take 1 r3 = ''-'');
         r4 = (if has_exp \<and> (take 1 r3 = ''-'' \<or> take 1 r3 = ''+'') then drop 1 r3 else r3);
         exp_part = (if has_exp then takeWhile is_digit r4 else []);
         r5 = (if has_exp then dropWhile is_digit r4 else r4)
     in if int_part = [] \<or> (1 < length int_part \<and> take 1 int_part = ''0'')
           \<or> (has_frac \<and> frac_part = []) \<or> (has_exp \<and> exp_part = [])
        then None
        else
          (let mantissa = real (digits_value (int_part @ frac_part)) / 10 ^ length frac_part;
               scaled = (if exp_negative then mantissa / 10 ^ digits_value exp_part
                         else mantissa * 10 ^ digits_value exp_part)
           in Some (if negative then - scaled else scaled, r5)))"

definition hex_digit :: "char \<Rightarrow> nat option" where
  "hex_digit c =
    (let n = (of_char c :: nat) in
     if 48 \<le> n \<and> n \<le> 57 then Some (n - 48)
     else if 65 \<le> n \<and> n \<le> 70 then Some (n - 55)
     else if 97 \<le> n \<and> n \<le> 102 then Some (n - 87)
     else None)"

definition unescape :: "char \<Rightarrow> char option" where
  "unescape c = map_of
    [(CHR 0x22, CHR 0x22), (CHR 0x5C, CHR 0x5C), (CHR ''/'', CHR ''/''), (CHR ''b'', CHR 0x08),
     (CHR ''f'', CHR 0x0C), (CHR ''n'', CHR 0x0A), (CHR ''r'', CHR 0x0D), (CHR ''t'', CHR 0x09)] c"

definition unicode_escape :: "char \<Rightarrow> char \<Rightarrow> char \<Rightarrow> char \<Rightarrow> char option" where
  "unicode_escape a b c d =
    (case (hex_digit a, hex_digit b, hex_digit c, hex_digit d) of
       (Some w, Some x, Some y, Some z) \<Rightarrow>
         (let n = ((w * 16 + x) * 16 + y) * 16 + z in if n < 256 then Some (char_of n) else None)
     | _ \<Rightarrow> None)"

fun parse_string :: "string \<Rightarrow> string \<Rightarrow> (string \<times> string) option" where
  "parse_string acc [] = None"
| "parse_string acc (c # cs) =
    (if c = CHR 0x22 then Some (rev acc, cs)
     else if c = CHR 0x5C then
       (case cs of
          [] \<Rightarrow> None
        | e # r \<Rightarrow>
           (if e = CHR ''u'' then
              (case r of
                 h1 # h2 # h3 # h4 # r' \<Rightarrow>
                   (case unicode_escape h1 h2 h3 h4 of
                      Some u \<Rightarrow> parse_string (u # acc) r'
                    | None \<Rightarrow> None)
               | _ \<Rightarrow> None)
            else (case unescape e of Some u \<Rightarrow> parse_string (u # acc) r | None \<Rightarrow> None)))
     else if (of_char c :: nat) < 32 then None
     else parse_string (c # acc) cs)"

fun parse_value :: "nat \<Rightarrow> string \<Rightarrow> (json \<times> string) option"
  and parse_elements :: "nat \<Rightarrow> string \<Rightarrow> (json list \<times> string) option"
  and parse_members :: "nat \<Rightarrow> string \<Rightarrow> ((string \<times> json) list \<times> string) option" where
  "parse_value 0 cs = None"
| "parse_value (Suc n) cs =
    (if take 4 cs = ''null'' then Some (JNull, drop 4 cs)
     else if take 4 cs = ''true'' then Some (JBool True, drop 4 cs)
     else if take 5 cs = ''false'' then Some (JBool False, drop 5 cs)
     else if take 1 cs = [CHR 0x22] then
       map_option (\<lambda>(s, r). (JString s, r)) (parse_string [] (drop 1 cs))
     else if take 1 cs = ''['' then
       (if take 1 (skip_ws (drop 1 cs)) = '']'' then Some (JArray [], drop 1 (skip_ws (drop 1 cs)))
        else map_option (\<lambda>(xs, r). (JArray xs, r)) (parse_elements n (skip_ws (drop 1 cs))))
     else if take 1 cs = ''{'' then
       (if take 1 (skip_ws (drop 1 cs)) = ''}'' then Some (JObject [], drop 1 (skip_ws (drop 1 cs)))
        else map_option (\<lambda>(ms, r). (JObject ms, r)) (parse_members n (skip_ws (drop 1 cs))))
     else map_option (\<lambda>(x, r). (JNumber x, r)) (parse_number cs))"
| "parse_elements 0 cs = None"
| "parse_elements (Suc n) cs =
    (case parse_value n cs of
       None \<Rightarrow> None
     | Some (x, r) \<Rightarrow>
        (if take 1 (skip_ws r) = '','' then
           map_option (\<lambda>(xs, r'). (x # xs, r')) (parse_elements n (skip_ws (drop 1 (skip_ws r))))
         else if take 1 (skip_ws r) = '']'' then Some ([x], drop 1 (skip_ws r))
         else None))"
| "parse_members 0 cs = None"
| "parse_members (Suc n) cs =
    (if take 1 cs = [CHR 0x22] then
       (case parse_string [] (drop 1 cs) of
          None \<Rightarrow> None
        | Some (k, r) \<Rightarrow>
           (if take 1 (skip_ws r) = '':'' then
              (case parse_value n (skip_ws (drop 1 (skip_ws r))) of
                 None \<Rightarrow> None
               | Some (x, r') \<Rightarrow>
                  (if take 1 (skip_ws r') = '','' then
                     map_option (\<lambda>(ms, r''). ((k, x) # ms, r''))
                       (parse_members n (skip_ws (drop 1 (skip_ws r'))))
                   else if take 1 (skip_ws r') = ''}'' then Some ([(k, x)], drop 1 (skip_ws r'))
                   else None))
            else None))
     else None)"

definition JSON_parse_model :: "string \<Rightarrow> exn + json" where
  "JSON_parse_model s =
    (case parse_value (Suc (length s)) (skip_ws s) of
       Some (v, r) \<Rightarrow>
         if skip_ws r = [] then Inr v else Inl (Exn False ''SyntaxError'' ''Unexpected token'')
     | None \<Rightarrow> Inl (Exn False ''SyntaxError'' ''Unexpected token''))"

text \<open>
  The text of a number, for the examples only: plain decimal digits, as JavaScript
  prints a whole number from 0 to 9007199254740992. The examples use it at 180.
\<close>

definition digit_char :: "nat \<Rightarrow> char" where
  "digit_char d = char_of (d + 48)"

fun decimal :: "nat \<Rightarrow> string" where
  "decimal n = (if 10 \<le> n then decimal (n div 10) @ [digit_char (n mod 10)] else [digit_char n])"

declare decimal.simps [simp del]

definition whole_number_text :: "real \<Rightarrow> string" where
  "whole_number_text x = decimal (nat \<lfloor>x\<rfloor>)"

text \<open>
  A platform whose external agents print a given text, or fail in a given way, per
  command (\<open>npx\<close> runs codex, \<open>gemini\<close> runs gemini).
\<close>

definition agents_print :: "(string \<Rightarrow> exn + string) \<Rightarrow> platform" where
  "agents_print outcome =
    \<lparr>JSON_parse = JSON_parse_model,
     execFileAsync = (\<lambda>cmd args cwd timeout_ms. outcome cmd),
     buildPrompt = (\<lambda>for_role input. task_description input),
     Number_toString = whole_number_text\<rparr>"

definition config_with :: "AgentEngine set \<Rightarrow> RuntimeConfig" where
  "config_with agents =
    \<lparr>available_agents = agents, timeout_seconds = 180,
     auto_trigger_patterns = [''**/auth/**'', ''**/migrations/**'', ''**/*.schema.*''],
     default_mode = Standard, repo_root = ''/repo''\<rparr>"

definition review_input :: ReviewInput where
  "review_input =
    \<lparr>task_description = ''Refactor auth from session-based to JWT'',
     proposed_changes = ''Replace express-session with jsonwebtoken'',
     affected_files = [''src/auth/index.ts''],
     severity = Critical, context_files = None, mode = None\<rparr>"

text \<open>Example assignments and agent outputs.\<close>

definition codex_assignment :: AgentAssignment where
  "codex_assignment =
    \<lparr>AgentAssignment.role = Devils_advocate, AgentAssignment.engine = Codex,
     AgentAssignment.model = MODELS Codex, via = Subprocess\<rparr>"

definition gemini_assignment :: AgentAssignment where
  "gemini_assignment =
    \<lparr>AgentAssignment.role = Architecture_critic, AgentAssignment.engine = Gemini,
     AgentAssignment.model = MODELS Gemini, via = Subprocess\<rparr>"

definition quoted :: "string \<Rightarrow> string" where
  "quoted s = [CHR 0x22] @ s @ [CHR 0x22]"

definition block_answer :: string where
  "block_answer = ''{'' @ quoted ''verdict'' @ '': '' @ quoted ''block'' @ '', ''
     @ quoted ''confidence'' @ '': 0.9}''"



text \<open>
  An assignment that the resolver never makes and that the invoker refuses: claude as
  a subprocess.
\<close>

definition claude_subprocess_assignment :: AgentAssignment where
  "claude_subprocess_assignment =
    \<lparr>AgentAssignment.role = Pragmatist, AgentAssignment.engine = Claude,
     AgentAssignment.model = MODELS Claude, via = Subprocess\<rparr>"

text \<open>A run in which codex exits with a failure and gemini prints \<open>null\<close>.\<close>

definition codex_fails_gemini_null :: platform where
  "codex_fails_gemini_null = agents_print (\<lambda>cmd.
     if cmd = ''npx'' then Inl (Exn False ''Error'' ''Command failed: npx codex exec'')
     else Inr ''null'')"

text \<open>A run in which codex is killed at its timeout while gemini answers.\<close>

definition codex_times_out :: platform where
  "codex_times_out = agents_print (\<lambda>cmd.
     if cmd = ''npx'' then Inl (Exn True ''Error'' ''Command failed: npx codex exec'')
     else Inr block_answer)"

text \<open>A verdict record with no payload, as the examples of the merger use.\<close>

definition verdict_of ::
  "AgentRole \<Rightarrow> AgentEngine \<Rightarrow> Verdict \<Rightarrow> real \<Rightarrow> Status \<Rightarrow> AgentVerdict" where
  "verdict_of r e d c s =
    \<lparr>AgentVerdict.role = r, AgentVerdict.engine = e, AgentVerdict.model = MODELS e,
     AgentVerdict.verdict = d, AgentVerdict.confidence = c, raw_output = JNull,
     status = s, error = (if s = Completed then None else Some ''Agent failed: exit 1'')\<rparr>"

section \<open>Theorems: resolver\<close>

lemma resolveAgents_roles:
  "map AgentAssignment.role (resolveAgents config) = [Devils_advocate, Architecture_critic, Pragmatist]"
  by (simp add: resolveAgents_def Let_def)

text \<open>
  C3. For every availability set the resolver returns exactly three assignments, one per
  role in the fixed order devils_advocate, architecture_critic, pragmatist; the result
  depends on the configuration only through the availability set (two configurations
  with the same set resolve alike); and whenever codex or gemini is available, the
  devils_advocate assignment runs as a subprocess on one of the available external
  engines.
\<close>

theorem resolveAgents_total_cover:
  "length (resolveAgents config) = 3
   \<and> map AgentAssignment.role (resolveAgents config) = [Devils_advocate, Architecture_critic, Pragmatist]
   \<and> (available_agents config' = available_agents config
        \<longrightarrow> resolveAgents config' = resolveAgents config)
   \<and> (Codex \<in> available_agents config \<or> Gemini \<in> available_agents config
        \<longrightarrow> (\<forall>a \<in> set (resolveAgents config).
              AgentAssignment.role a = Devils_advocate
              \<longrightarrow> via a = Subprocess \<and> AgentAssignment.engine a \<noteq> Claude
                  \<and> AgentAssignment.engine a \<in> available_agents config))"
proof (intro conjI impI)
  show "map AgentAssignment.role (resolveAgents config) = [Devils_advocate, Architecture_critic, Pragmatist]"
    by (rule resolveAgents_roles)
  then have "length (map AgentAssignment.role (resolveAgents config)) = 3"
    by simp
  then show "length (resolveAgents config) = 3"
    by simp
next
  assume "available_agents config' = available_agents config"
  then show "resolveAgents config' = resolveAgents config"
    by (simp add: resolveAgents_def)
next
  assume "Codex \<in> available_agents config \<or> Gemini \<in> available_agents config"
  then show "\<forall>a \<in> set (resolveAgents config).
      AgentAssignment.role a = Devils_advocate
      \<longrightarrow> via a = Subprocess \<and> AgentAssignment.engine a \<noteq> Claude
          \<and> AgentAssignment.engine a \<in> available_agents config"
    by (auto simp: resolveAgents_def Let_def)
qed

theorem resolveAgents_total_cover_witness:
  "Gemini \<in> available_agents (config_with {Gemini})
   \<and> available_agents (config_with {Gemini}\<lparr>timeout_seconds := 240\<rparr>)
       = available_agents (config_with {Gemini})
   \<and> resolveAgents (config_with {Gemini}\<lparr>timeout_seconds := 240\<rparr>)
       = resolveAgents (config_with {Gemini})
   \<and> length (resolveAgents (config_with {Gemini})) = 3
   \<and> via (hd (resolveAgents (config_with {Gemini}))) = Subprocess
   \<and> AgentAssignment.engine (hd (resolveAgents (config_with {Gemini}))) = Gemini"
  using resolveAgents_total_cover
    [of "config_with {Gemini}" "config_with {Gemini}\<lparr>timeout_seconds := 240\<rparr>"]
  by (simp add: config_with_def resolveAgents_def)

section \<open>Theorems: result merger\<close>

lemma count_fold:
  "fold (\<lambda>v counts. counts(AgentVerdict.verdict v := Suc (counts (AgentVerdict.verdict v)))) xs c d
     = c d + length (filter (\<lambda>v. AgentVerdict.verdict v = d) xs)"
  by (induction xs arbitrary: c) auto

lemma count_verdicts_eq:
  "count_verdicts xs d = length (filter (\<lambda>v. AgentVerdict.verdict v = d) xs)"
  by (simp add: count_verdicts_def count_fold)

lemma weigh_fold:
  "\<forall>v \<in> set xs. status v = Completed \<Longrightarrow>
   fold (\<lambda>v (totalWeight, weightedConfidence).
        let weight = (if status v = Completed then 1 else 3 / 10)
        in (totalWeight + weight, weightedConfidence + AgentVerdict.confidence v * weight))
      xs (t, w) = (t + real (length xs), w + sum_list (map AgentVerdict.confidence xs))"
  by (induction xs arbitrary: t w) (auto simp: Let_def)

lemma weigh_completed:
  "weigh (filter (\<lambda>v. status v = Completed) vs)
    = (real (length (filter (\<lambda>v. status v = Completed) vs)),
       sum_list (map AgentVerdict.confidence (filter (\<lambda>v. status v = Completed) vs)))"
  unfolding weigh_def by (subst weigh_fold) auto

lemma confidence_completed:
  "filter (\<lambda>v. status v = Completed) vs \<noteq> [] \<Longrightarrow>
   Consensus.confidence (computeConsensus stringify toStr vs) =
     Math_round (sum_list (map AgentVerdict.confidence (filter (\<lambda>v. status v = Completed) vs))
        / real (length (filter (\<lambda>v. status v = Completed) vs)) * 100) / 100"
  by (simp add: computeConsensus_def Let_def weigh_completed rounded_confidence_def)

lemma sum_list_unit_bounds:
  "\<forall>x \<in> set xs. 0 \<le> f x \<and> f x \<le> (1::real) \<Longrightarrow>
   0 \<le> sum_list (map f xs) \<and> sum_list (map f xs) \<le> real (length xs)"
  by (induction xs) auto

lemma round_percent_floor:
  assumes "0 \<le> x" "x \<le> (1::real)"
  shows "0 \<le> \<lfloor>x * 100 + 1 / 2\<rfloor> \<and> \<lfloor>x * 100 + 1 / 2\<rfloor> \<le> 100"
proof -
  have "0 \<le> x * 100 + 1 / 2" using assms by simp
  then have lo: "0 \<le> \<lfloor>x * 100 + 1 / 2\<rfloor>" by simp
  have "x * 100 + 1 / 2 < 101" using assms by simp
  then have "\<lfloor>x * 100 + 1 / 2\<rfloor> < 101" by (simp add: floor_less_iff)
  then have hi: "\<lfloor>x * 100 + 1 / 2\<rfloor> \<le> 100" by simp
  from lo hi show ?thesis by simp
qed

text \<open>
  C1. When at least one verdict is completed, the overall decision follows the ordered
  rule on the completed verdicts: block when two or more of them block; otherwise
  proceed-with-changes when exactly one blocks; otherwise proceed-with-changes when one
  or more say proceed-with-changes; otherwise proceed.
\<close>

theorem computeConsensus_decision_rule:
  assumes "filter (\<lambda>v. status v = Completed) verdicts \<noteq> []"
  shows "Consensus.verdict (computeConsensus stringify toStr verdicts) =
    (let blocks = length (filter (\<lambda>v. status v = Completed
                                     \<and> AgentVerdict.verdict v = Block) verdicts);
         changes = length (filter (\<lambda>v. status v = Completed
                                     \<and> AgentVerdict.verdict v = Proceed_with_changes) verdicts)
     in if 2 \<le> blocks then Block
        else if blocks = 1 then Proceed_with_changes
        else if 1 \<le> changes then Proceed_with_changes
        else Proceed)"
  using assms
  by (simp add: computeConsensus_def Let_def overall_verdict_def count_verdicts_eq conj_commute)

theorem computeConsensus_decision_rule_witness:
  "\<forall>stringify toStr.
    filter (\<lambda>v. status v = Completed)
      [verdict_of Devils_advocate Codex Block (9 / 10) Completed,
       verdict_of Architecture_critic Gemini Block (3 / 10) Timeout,
       verdict_of Pragmatist Claude Proceed (8 / 10) Completed] \<noteq> []
    \<and> Consensus.verdict (computeConsensus stringify toStr
      [verdict_of Devils_advocate Codex Block (9 / 10) Completed,
       verdict_of Architecture_critic Gemini Block (3 / 10) Timeout,
       verdict_of Pragmatist Claude Proceed (8 / 10) Completed]) = Proceed_with_changes"
proof (intro allI)
  fix stringify :: "json \<Rightarrow> string" and toStr :: "json option \<Rightarrow> string"
  show "filter (\<lambda>v. status v = Completed)
      [verdict_of Devils_advocate Codex Block (9 / 10) Completed,
       verdict_of Architecture_critic Gemini Block (3 / 10) Timeout,
       verdict_of Pragmatist Claude Proceed (8 / 10) Completed] \<noteq> []
    \<and> Consensus.verdict (computeConsensus stringify toStr
      [verdict_of Devils_advocate Codex Block (9 / 10) Completed,
       verdict_of Architecture_critic Gemini Block (3 / 10) Timeout,
       verdict_of Pragmatist Claude Proceed (8 / 10) Completed]) = Proceed_with_changes"
    using computeConsensus_decision_rule [of
      "[verdict_of Devils_advocate Codex Block (9 / 10) Completed,
        verdict_of Architecture_critic Gemini Block (3 / 10) Timeout,
        verdict_of Pragmatist Claude Proceed (8 / 10) Completed]" stringify toStr]
    by (simp add: verdict_of_def)
qed

text \<open>
  C8. When no verdict is completed (the empty list included), the merger returns the
  degraded result: decision proceed-with-changes, confidence 0.2, and an issue list of
  exactly one entry, the notice that all agents failed or timed out.
\<close>

theorem computeConsensus_degraded:
  assumes "\<forall>v \<in> set verdicts. status v \<noteq> Completed"
  shows "computeConsensus stringify toStr verdicts =
    \<lparr>Consensus.verdict = Proceed_with_changes, Consensus.confidence = 2 / 10,
     critical_issues =
       [''All agents failed or timed out '' @ em_dash @ '' proceed with extreme caution''],
     recommendations = [''Re-run the protocol or manually review the changes'']\<rparr>
   \<and> length (critical_issues (computeConsensus stringify toStr verdicts)) = 1"
proof -
  from assms have "filter (\<lambda>v. status v = Completed) verdicts = []"
    by (simp add: filter_empty_conv)
  then show ?thesis
    by (simp add: computeConsensus_def)
qed

theorem computeConsensus_degraded_witness:
  "\<forall>stringify toStr.
    Consensus.verdict (computeConsensus stringify toStr []) = Proceed_with_changes
    \<and> Consensus.confidence (computeConsensus stringify toStr []) = 2 / 10
    \<and> length (critical_issues (computeConsensus stringify toStr [])) = 1
    \<and> status (verdict_of Devils_advocate Codex Proceed (9 / 10) Error) \<noteq> Completed
    \<and> Consensus.confidence (computeConsensus stringify toStr
          [verdict_of Devils_advocate Codex Proceed (9 / 10) Error]) = 2 / 10"
proof (intro allI)
  fix stringify :: "json \<Rightarrow> string" and toStr :: "json option \<Rightarrow> string"
  have none: "\<forall>v \<in> set []. status v \<noteq> Completed"
    by simp
  have failed: "\<forall>v \<in> set [verdict_of Devils_advocate Codex Proceed (9 / 10) Error].
      status v \<noteq> Completed"
    by (simp add: verdict_of_def)
  show "Consensus.verdict (computeConsensus stringify toStr []) = Proceed_with_changes
    \<and> Consensus.confidence (computeConsensus stringify toStr []) = 2 / 10
    \<and> length (critical_issues (computeConsensus stringify toStr [])) = 1
    \<and> status (verdict_of Devils_advocate Codex Proceed (9 / 10) Error) \<noteq> Completed
    \<and> Consensus.confidence (computeConsensus stringify toStr
          [verdict_of Devils_advocate Codex Proceed (9 / 10) Error]) = 2 / 10"
    using computeConsensus_degraded [OF none, of stringify toStr]
      computeConsensus_degraded [OF failed, of stringify toStr]
    by (simp add: verdict_of_def)
qed

text \<open>
  C9 (amended). When every completed verdict's confidence lies in the closed interval
  from 0 to 1, the consensus confidence is one of the hundredths 0.00, 0.01, ..., 1.00:
  it lies in that interval and is rounded to two decimals. The merger neither clamps
  nor checks its input, so outside that range nothing of the kind is promised.
\<close>

theorem computeConsensus_confidence_range:
  assumes unit: "\<forall>v \<in> set verdicts. status v = Completed
      \<longrightarrow> 0 \<le> AgentVerdict.confidence v \<and> AgentVerdict.confidence v \<le> 1"
  shows "(\<exists>k::int. 0 \<le> k \<and> k \<le> 100
           \<and> Consensus.confidence (computeConsensus stringify toStr verdicts)
               = real_of_int k / 100)
     \<and> 0 \<le> Consensus.confidence (computeConsensus stringify toStr verdicts)
     \<and> Consensus.confidence (computeConsensus stringify toStr verdicts) \<le> 1"
proof -
  let ?c = "Consensus.confidence (computeConsensus stringify toStr verdicts)"
  have hundredths: "\<exists>k::int. 0 \<le> k \<and> k \<le> 100 \<and> ?c = real_of_int k / 100"
  proof (cases "filter (\<lambda>v. status v = Completed) verdicts = []")
    case True
    then have "?c = 2 / 10"
      by (simp add: computeConsensus_def)
    then have "(0::int) \<le> 20 \<and> (20::int) \<le> 100 \<and> ?c = real_of_int 20 / 100"
      by simp
    then show ?thesis by blast
  next
    case False
    let ?cs = "filter (\<lambda>v. status v = Completed) verdicts"
    let ?mean = "sum_list (map AgentVerdict.confidence ?cs) / real (length ?cs)"
    have c: "?c = Math_round (?mean * 100) / 100"
      using False by (rule confidence_completed)
    from unit have "\<forall>v \<in> set ?cs. 0 \<le> AgentVerdict.confidence v \<and> AgentVerdict.confidence v \<le> 1"
      by simp
    then have b: "0 \<le> sum_list (map AgentVerdict.confidence ?cs)
        \<and> sum_list (map AgentVerdict.confidence ?cs) \<le> real (length ?cs)"
      by (rule sum_list_unit_bounds)
    have pos: "0 < real (length ?cs)" using False by simp
    from b pos have "0 \<le> ?mean" "?mean \<le> 1" by simp_all
    then have "0 \<le> \<lfloor>?mean * 100 + 1 / 2\<rfloor> \<and> \<lfloor>?mean * 100 + 1 / 2\<rfloor> \<le> 100"
      by (rule round_percent_floor)
    moreover have "?c = real_of_int \<lfloor>?mean * 100 + 1 / 2\<rfloor> / 100"
      unfolding c Math_round_def by (rule refl)
    ultimately show ?thesis by blast
  qed
  then obtain k :: int where k: "0 \<le> k" "k \<le> 100" "?c = real_of_int k / 100"
    by blast
  then have "0 \<le> ?c \<and> ?c \<le> 1"
    by simp
  with hundredths show ?thesis by blast
qed

theorem computeConsensus_confidence_range_witness:
  "\<forall>stringify toStr.
    list_all (\<lambda>v. 0 \<le> AgentVerdict.confidence v \<and> AgentVerdict.confidence v \<le> 1)
       [verdict_of Devils_advocate Codex Proceed (8 / 10) Completed,
        verdict_of Architecture_critic Gemini Proceed (9 / 10) Completed,
        verdict_of Pragmatist Claude Proceed_with_changes (6 / 10) Completed]
    \<and> Consensus.confidence (computeConsensus stringify toStr
          [verdict_of Devils_advocate Codex Proceed (8 / 10) Completed,
           verdict_of Architecture_critic Gemini Proceed (9 / 10) Completed,
           verdict_of Pragmatist Claude Proceed_with_changes (6 / 10) Completed]) = 77 / 100
    \<and> 0 \<le> Consensus.confidence (computeConsensus stringify toStr
          [verdict_of Devils_advocate Codex Proceed (8 / 10) Completed,
           verdict_of Architecture_critic Gemini Proceed (9 / 10) Completed,
           verdict_of Pragmatist Claude Proceed_with_changes (6 / 10) Completed])
    \<and> Consensus.confidence (computeConsensus stringify toStr
          [verdict_of Devils_advocate Codex Proceed (8 / 10) Completed,
           verdict_of Architecture_critic Gemini Proceed (9 / 10) Completed,
           verdict_of Pragmatist Claude Proceed_with_changes (6 / 10) Completed]) \<le> 1"
proof (intro allI)
  fix stringify :: "json \<Rightarrow> string" and toStr :: "json option \<Rightarrow> string"
  let ?vs = "[verdict_of Devils_advocate Codex Proceed (8 / 10) Completed,
              verdict_of Architecture_critic Gemini Proceed (9 / 10) Completed,
              verdict_of Pragmatist Claude Proceed_with_changes (6 / 10) Completed]"
  have unit: "list_all (\<lambda>v. 0 \<le> AgentVerdict.confidence v \<and> AgentVerdict.confidence v \<le> 1) ?vs"
    by (simp add: verdict_of_def)
  then have "\<forall>v \<in> set ?vs. status v = Completed
      \<longrightarrow> 0 \<le> AgentVerdict.confidence v \<and> AgentVerdict.confidence v \<le> 1"
    by (simp add: list_all_iff)
  then have range: "0 \<le> Consensus.confidence (computeConsensus stringify toStr ?vs)
      \<and> Consensus.confidence (computeConsensus stringify toStr ?vs) \<le> 1"
    by (rule computeConsensus_confidence_range [THEN conjunct2])
  have "Consensus.confidence (computeConsensus stringify toStr ?vs) = 77 / 100"
    by (simp add: computeConsensus_def Let_def verdict_of_def weigh_def rounded_confidence_def
        Math_round_def)
  with unit range
  show "list_all (\<lambda>v. 0 \<le> AgentVerdict.confidence v \<and> AgentVerdict.confidence v \<le> 1) ?vs
    \<and> Consensus.confidence (computeConsensus stringify toStr ?vs) = 77 / 100
    \<and> 0 \<le> Consensus.confidence (computeConsensus stringify toStr ?vs)
    \<and> Consensus.confidence (computeConsensus stringify toStr ?vs) \<le> 1"
    by blast
qed

text \<open>
  C9, as stated, fails: one completed verdict with confidence 5, which the invoker
  accepts from a payload as it accepts any number, gives the consensus confidence 5.
  (In the program a payload can also carry \<open>Infinity\<close>, which is outside the model's
  numbers; the result is then not a finite number at all.)
\<close>

theorem computeConsensus_confidence_range_counterexample:
  "\<forall>stringify toStr.
    Consensus.confidence (computeConsensus stringify toStr
      [verdict_of Devils_advocate Codex Proceed 5 Completed]) = 5
    \<and> \<not> (Consensus.confidence (computeConsensus stringify toStr
      [verdict_of Devils_advocate Codex Proceed 5 Completed]) \<le> 1)"
  by (simp add: computeConsensus_def Let_def verdict_of_def weigh_def rounded_confidence_def
      Math_round_def)

text \<open>
  C2. The weighting loop runs over the completed verdicts only, so its weight is always
  1 and a verdict that is not completed is left out of the mean rather than counted
  with weight 0.3: the confidence of any verdict list is that of its completed
  verdicts alone. On a completed verdict of confidence 0.8 beside a timed-out one of
  confidence 0.3 the code returns 0.8, the specification's formula 0.68.
\<close>

theorem computeConsensus_confidence_drops_failed:
  "Consensus.confidence (computeConsensus stringify toStr verdicts)
     = Consensus.confidence (computeConsensus stringify toStr
         (filter (\<lambda>v. status v = Completed) verdicts))
   \<and> Consensus.confidence (computeConsensus stringify toStr
     [verdict_of Devils_advocate Codex Proceed (8 / 10) Completed,
      verdict_of Architecture_critic Gemini Proceed_with_changes (3 / 10) Timeout]) = 8 / 10
   \<and> spec_confidence
     [verdict_of Devils_advocate Codex Proceed (8 / 10) Completed,
      verdict_of Architecture_critic Gemini Proceed_with_changes (3 / 10) Timeout] = 68 / 100"
proof (intro conjI)
  show "Consensus.confidence (computeConsensus stringify toStr verdicts)
     = Consensus.confidence (computeConsensus stringify toStr
         (filter (\<lambda>v. status v = Completed) verdicts))"
    by (simp add: computeConsensus_def Let_def)
next
  show "Consensus.confidence (computeConsensus stringify toStr
     [verdict_of Devils_advocate Codex Proceed (8 / 10) Completed,
      verdict_of Architecture_critic Gemini Proceed_with_changes (3 / 10) Timeout]) = 8 / 10"
    by (simp add: computeConsensus_def Let_def verdict_of_def weigh_def rounded_confidence_def
        Math_round_def)
next
  show "spec_confidence
     [verdict_of Devils_advocate Codex Proceed (8 / 10) Completed,
      verdict_of Architecture_critic Gemini Proceed_with_changes (3 / 10) Timeout] = 68 / 100"
    by (simp add: verdict_of_def Math_round_def spec_confidence_def spec_weight_def)
qed

section \<open>Theorems: response normalizer\<close>

text \<open>Whatever \<open>JSON.parse\<close> does, \<open>parseAgentOutput\<close> returns and does not throw.\<close>

lemma parseAgentOutput_never_raises: "\<exists>payload. parseAgentOutput parse output r = Inr payload"
  by (simp add: parseAgentOutput_def split: sum.splits option.splits)



text \<open>Evaluations of the example parser.\<close>

lemma JSON_null: "JSON_parse_model ''null'' = Inr JNull" by code_simp

lemma JSON_empty: "JSON_parse_model ''{}'' = Inr (JObject [])" by code_simp

lemma block_parsed: "JSON_parse_model (cleaned block_answer)
   = Inr (JObject [(''verdict'', JString ''block''), (''confidence'', JNumber (9 / 10))])"
  by code_simp

lemma text_180: "whole_number_text 180 = ''180''" by code_simp




text \<open>
  C4. The output \<open>null\<close> is valid JSON, so the first stage returns \<open>null\<close>: not a
  structured payload. The invoker then fails to read \<open>parsed.verdict\<close>, and its handler
  reports the agent as errored.
\<close>

theorem parseAgentOutput_null_payload:
  "parseAgentOutput JSON_parse_model ''null'' Devils_advocate = Inr JNull
   \<and> invokeExternal (agents_print (\<lambda>cmd. Inr ''null'')) codex_assignment review_input
        (config_with {Codex})
      = Inr \<lparr>AgentVerdict.role = Devils_advocate, AgentVerdict.engine = Codex,
          AgentVerdict.model = MODELS Codex, AgentVerdict.verdict = Proceed_with_changes,
          AgentVerdict.confidence = 3 / 10, raw_output = JNull, status = Error,
          error = Some (''Agent failed: Cannot read properties of null (reading ''
                        @ [CHR 0x27] @ ''verdict'' @ [CHR 0x27] @ '')'')\<rparr>"
proof -
  have clean: "cleaned ''null'' = ''null''" by code_simp
  have parsed: "parseAgentOutput JSON_parse_model ''null'' Devils_advocate = Inr JNull"
    by (simp add: parseAgentOutput_def clean JSON_null)
  then show ?thesis
    by (simp add: invokeExternal_def command_line_def codex_assignment_def invoke_try_def
        agents_print_def get_property_def invoke_catch_def)
qed

section \<open>Theorems: agent invoker\<close>

lemma zip_map_same:
  "map (\<lambda>(a, r). f a r) (zip xs (map g xs)) = map (\<lambda>a. f a (g a)) xs"
  by (induction xs) auto

lemma executeAgents_verdicts:
  "fst (executeAgents js assignments input config)
    = map (\<lambda>a. settled_verdict a (invokeExternal js a input config))
        (filter (\<lambda>a. via a = Subprocess) assignments)"
  by (simp add: executeAgents_def Let_def zip_map_same)

lemma invoke_try_Inr:
  "invoke_try js a config cmd args = Inr v \<Longrightarrow>
     status v = Completed \<and> AgentVerdict.role v = AgentAssignment.role a \<and> error v = None"
  by (auto simp: invoke_try_def split: sum.splits)

lemma invoke_try_exec_failed:
  "execFileAsync js cmd args (repo_root config) (timeout_seconds config * 1000) = Inl err \<Longrightarrow>
     invoke_try js a config cmd args = Inl err"
  by (simp add: invoke_try_def)

lemma settled_shape:
  "let v = settled_verdict a (invokeExternal js a input config) in
     AgentVerdict.role v = AgentAssignment.role a
     \<and> (status v = Completed
        \<or> (AgentVerdict.verdict v = Proceed_with_changes \<and> AgentVerdict.confidence v = 3 / 10
           \<and> raw_output v = JNull \<and> error v \<noteq> None))"
  by (auto simp: Let_def settled_verdict_def invokeExternal_def invoke_catch_def
      split: sum.splits prod.splits dest!: invoke_try_Inr)

lemma settled_exec_failed:
  assumes "command_line (AgentAssignment.engine a)
        (buildStructuredPrompt js (AgentAssignment.role a) input) = Inr (cmd, args)"
    and "execFileAsync js cmd args (repo_root config) (timeout_seconds config * 1000) = Inl err"
  shows "settled_verdict a (invokeExternal js a input config) = invoke_catch js a config err"
  using assms by (simp add: invokeExternal_def Let_def invoke_try_exec_failed settled_verdict_def)

text \<open>What \<open>executeAgents\<close> makes of each outcome of an invocation.\<close>

lemma command_line_rejects:
  "(command_line e p = Inl reason)
    = (e = Claude \<and> reason = Exn False ''Error'' ''Unsupported external engine: claude'')"
  by (cases e) (auto simp: command_line_def engine_name_def)

lemma invokeExternal_rejects:
  "(invokeExternal js a input config = Inl reason)
    = (command_line (AgentAssignment.engine a)
         (buildStructuredPrompt js (AgentAssignment.role a) input) = Inl reason)"
  by (auto simp: invokeExternal_def Let_def split: sum.splits prod.splits)

lemma invoke_try_cases:
  "invoke_try js a config cmd args =
    (case execFileAsync js cmd args (repo_root config) (timeout_seconds config * 1000) of
       Inl err \<Rightarrow> Inl err
     | Inr stdout \<Rightarrow>
        (case parseAgentOutput (JSON_parse js) stdout (AgentAssignment.role a) of
           Inl err \<Rightarrow> Inl err
         | Inr payload \<Rightarrow>
            if payload = JNull then Inl (Exn False ''TypeError'' null_message)
            else Inr \<lparr>AgentVerdict.role = AgentAssignment.role a,
                    AgentVerdict.engine = AgentAssignment.engine a,
                    AgentVerdict.model = AgentAssignment.model a,
                    AgentVerdict.verdict = verdict_field (property payload ''verdict''),
                    AgentVerdict.confidence = confidence_field (property payload ''confidence''),
                    raw_output = payload, status = Completed, error = None\<rparr>))"
  by (simp add: invoke_try_def get_property_def null_message_def split: sum.splits)

lemma settled_null:
  assumes "command_line (AgentAssignment.engine a)
        (buildStructuredPrompt js (AgentAssignment.role a) input) = Inr (cmd, args)"
    and "execFileAsync js cmd args (repo_root config) (timeout_seconds config * 1000) = Inr stdout"
    and "parseAgentOutput (JSON_parse js) stdout (AgentAssignment.role a) = Inr JNull"
  shows "settled_verdict a (invokeExternal js a input config)
    = invoke_catch js a config (Exn False ''TypeError'' null_message)"
  using assms by (simp add: invokeExternal_def Let_def invoke_try_cases settled_verdict_def)

lemma settled_success:
  assumes "command_line (AgentAssignment.engine a)
        (buildStructuredPrompt js (AgentAssignment.role a) input) = Inr (cmd, args)"
    and "execFileAsync js cmd args (repo_root config) (timeout_seconds config * 1000) = Inr stdout"
    and "parseAgentOutput (JSON_parse js) stdout (AgentAssignment.role a) = Inr payload"
    and "payload \<noteq> JNull"
  shows "settled_verdict a (invokeExternal js a input config)
    = \<lparr>AgentVerdict.role = AgentAssignment.role a,
       AgentVerdict.engine = AgentAssignment.engine a,
       AgentVerdict.model = AgentAssignment.model a,
       AgentVerdict.verdict = verdict_field (property payload ''verdict''),
       AgentVerdict.confidence = confidence_field (property payload ''confidence''),
       raw_output = payload, status = Completed, error = None\<rparr>"
  using assms by (simp add: invokeExternal_def Let_def invoke_try_cases settled_verdict_def)

lemma settled_completed:
  assumes "status (settled_verdict a (invokeExternal js a input config)) = Completed"
  shows "\<exists>cmd args stdout payload.
      command_line (AgentAssignment.engine a)
        (buildStructuredPrompt js (AgentAssignment.role a) input) = Inr (cmd, args)
      \<and> execFileAsync js cmd args (repo_root config) (timeout_seconds config * 1000) = Inr stdout
      \<and> parseAgentOutput (JSON_parse js) stdout (AgentAssignment.role a) = Inr payload
      \<and> payload \<noteq> JNull
      \<and> raw_output (settled_verdict a (invokeExternal js a input config)) = payload
      \<and> error (settled_verdict a (invokeExternal js a input config)) = None"
  using assms
  by (auto simp: invokeExternal_def Let_def invoke_try_cases settled_verdict_def invoke_catch_def
      split: sum.splits prod.splits if_splits)

lemma settled_identity:
  "AgentVerdict.role (settled_verdict a (invokeExternal js a input config)) = AgentAssignment.role a
   \<and> AgentVerdict.engine (settled_verdict a (invokeExternal js a input config))
       = AgentAssignment.engine a
   \<and> AgentVerdict.model (settled_verdict a (invokeExternal js a input config))
       = AgentAssignment.model a"
  by (auto simp: invokeExternal_def Let_def invoke_try_cases settled_verdict_def invoke_catch_def
      split: sum.splits prod.splits if_splits)

text \<open>
  C7. \<open>executeAgents\<close> returns exactly one verdict per subprocess assignment, in order,
  each made from that assignment's own invocation alone and carrying its role, engine
  and model, so a failure of one leaves the others as they are. Every verdict is
  either completed or the synthesized default: decision proceed_with_changes,
  confidence 0.3, no payload, and an error text. Every way an invocation can fail is
  pinned down. A process call that fails gives status timeout and the timeout text if
  the child was killed (as it is at the timeout), and status error with the failure's
  message otherwise. A process that succeeds with the payload \<open>null\<close> gives status error
  with the message of the failed property read. An invocation that rejects, which it
  does exactly for the engine claude, gives status error with the text of the
  unexpected failure. A verdict is completed exactly when the process call succeeded
  and the payload is not \<open>null\<close>.
\<close>

theorem executeAgents_contains_failures:
  "length (fst (executeAgents js assignments input config))
     = length (filter (\<lambda>a. via a = Subprocess) assignments)
   \<and> (\<forall>i < length (filter (\<lambda>a. via a = Subprocess) assignments).
        let a = filter (\<lambda>a. via a = Subprocess) assignments ! i;
            v = fst (executeAgents js assignments input config) ! i
        in v = settled_verdict a (invokeExternal js a input config)
           \<and> AgentVerdict.role v = AgentAssignment.role a
           \<and> AgentVerdict.engine v = AgentAssignment.engine a
           \<and> AgentVerdict.model v = AgentAssignment.model a
           \<and> (status v = Completed
              \<or> (AgentVerdict.verdict v = Proceed_with_changes
                 \<and> AgentVerdict.confidence v = 3 / 10
                 \<and> raw_output v = JNull \<and> error v \<noteq> None))
           \<and> (\<forall>reason. invokeExternal js a input config = Inl reason
                 \<longrightarrow> status v = Error
                     \<and> AgentVerdict.verdict v = Proceed_with_changes
                     \<and> AgentVerdict.confidence v = 3 / 10
                     \<and> raw_output v = JNull
                     \<and> error v = Some (''Unexpected failure: '' @ exn_toString reason))
           \<and> ((\<exists>reason. invokeExternal js a input config = Inl reason)
                 = (AgentAssignment.engine a = Claude))
           \<and> (\<forall>cmd args err.
                 command_line (AgentAssignment.engine a)
                   (buildStructuredPrompt js (AgentAssignment.role a) input) = Inr (cmd, args)
                 \<and> execFileAsync js cmd args (repo_root config) (timeout_seconds config * 1000)
                     = Inl err
                 \<longrightarrow> status v = (if killed err then Timeout else Error)
                     \<and> AgentVerdict.verdict v = Proceed_with_changes
                     \<and> AgentVerdict.confidence v = 3 / 10
                     \<and> raw_output v = JNull
                     \<and> error v = Some (if killed err
                          then ''Agent timed out after ''
                                 @ Number_toString js (timeout_seconds config) @ ''s''
                          else ''Agent failed: '' @ message err))
           \<and> (\<forall>cmd args stdout.
                 command_line (AgentAssignment.engine a)
                   (buildStructuredPrompt js (AgentAssignment.role a) input) = Inr (cmd, args)
                 \<and> execFileAsync js cmd args (repo_root config) (timeout_seconds config * 1000)
                     = Inr stdout
                 \<and> parseAgentOutput (JSON_parse js) stdout (AgentAssignment.role a) = Inr JNull
                 \<longrightarrow> status v = Error
                     \<and> AgentVerdict.verdict v = Proceed_with_changes
                     \<and> AgentVerdict.confidence v = 3 / 10
                     \<and> raw_output v = JNull
                     \<and> error v = Some (''Agent failed: '' @ null_message))
           \<and> (\<forall>cmd args stdout payload.
                 command_line (AgentAssignment.engine a)
                   (buildStructuredPrompt js (AgentAssignment.role a) input) = Inr (cmd, args)
                 \<and> execFileAsync js cmd args (repo_root config) (timeout_seconds config * 1000)
                     = Inr stdout
                 \<and> parseAgentOutput (JSON_parse js) stdout (AgentAssignment.role a) = Inr payload
                 \<and> payload \<noteq> JNull
                 \<longrightarrow> status v = Completed \<and> raw_output v = payload \<and> error v = None)
           \<and> (status v = Completed
                 \<longrightarrow> (\<exists>cmd args stdout payload.
                       command_line (AgentAssignment.engine a)
                         (buildStructuredPrompt js (AgentAssignment.role a) input) = Inr (cmd, args)
                       \<and> execFileAsync js cmd args (repo_root config)
                           (timeout_seconds config * 1000) = Inr stdout
                       \<and> parseAgentOutput (JSON_parse js) stdout (AgentAssignment.role a)
                           = Inr payload
                       \<and> payload \<noteq> JNull \<and> raw_output v = payload \<and> error v = None)))"
proof (intro conjI allI impI)
  show "length (fst (executeAgents js assignments input config))
     = length (filter (\<lambda>a. via a = Subprocess) assignments)"
    by (simp add: executeAgents_verdicts)
next
  fix i
  assume i: "i < length (filter (\<lambda>a. via a = Subprocess) assignments)"
  let ?a = "filter (\<lambda>a. via a = Subprocess) assignments ! i"
  let ?v = "settled_verdict ?a (invokeExternal js ?a input config)"
  let ?line = "command_line (AgentAssignment.engine ?a)
      (buildStructuredPrompt js (AgentAssignment.role ?a) input)"
  have v: "fst (executeAgents js assignments input config) ! i = ?v"
    using i by (simp add: executeAgents_verdicts)
  have identity: "AgentVerdict.role ?v = AgentAssignment.role ?a
      \<and> AgentVerdict.engine ?v = AgentAssignment.engine ?a
      \<and> AgentVerdict.model ?v = AgentAssignment.model ?a"
    by (rule settled_identity)
  have shape: "status ?v = Completed
      \<or> (AgentVerdict.verdict ?v = Proceed_with_changes \<and> AgentVerdict.confidence ?v = 3 / 10
         \<and> raw_output ?v = JNull \<and> error ?v \<noteq> None)"
    using settled_shape [of ?a js input config] by (simp add: Let_def)
  have rejected: "\<forall>reason. invokeExternal js ?a input config = Inl reason
      \<longrightarrow> status ?v = Error
          \<and> AgentVerdict.verdict ?v = Proceed_with_changes
          \<and> AgentVerdict.confidence ?v = 3 / 10
          \<and> raw_output ?v = JNull
          \<and> error ?v = Some (''Unexpected failure: '' @ exn_toString reason)"
    by (simp add: settled_verdict_def)
  have rejects: "(\<exists>reason. invokeExternal js ?a input config = Inl reason)
      = (AgentAssignment.engine ?a = Claude)"
    by (simp add: invokeExternal_rejects command_line_rejects)
  have failed: "\<forall>cmd args err. ?line = Inr (cmd, args)
        \<and> execFileAsync js cmd args (repo_root config) (timeout_seconds config * 1000) = Inl err
      \<longrightarrow> status ?v = (if killed err then Timeout else Error)
          \<and> AgentVerdict.verdict ?v = Proceed_with_changes
          \<and> AgentVerdict.confidence ?v = 3 / 10
          \<and> raw_output ?v = JNull
          \<and> error ?v = Some (if killed err
               then ''Agent timed out after '' @ Number_toString js (timeout_seconds config) @ ''s''
               else ''Agent failed: '' @ message err)"
  proof (intro allI impI, elim conjE)
    fix cmd args err
    assume "?line = Inr (cmd, args)"
      and "execFileAsync js cmd args (repo_root config) (timeout_seconds config * 1000) = Inl err"
    then have "?v = invoke_catch js ?a config err"
      by (rule settled_exec_failed)
    then show "status ?v = (if killed err then Timeout else Error)
          \<and> AgentVerdict.verdict ?v = Proceed_with_changes
          \<and> AgentVerdict.confidence ?v = 3 / 10
          \<and> raw_output ?v = JNull
          \<and> error ?v = Some (if killed err
               then ''Agent timed out after '' @ Number_toString js (timeout_seconds config) @ ''s''
               else ''Agent failed: '' @ message err)"
      by (simp add: invoke_catch_def)
  qed
  have null: "\<forall>cmd args stdout. ?line = Inr (cmd, args)
        \<and> execFileAsync js cmd args (repo_root config) (timeout_seconds config * 1000) = Inr stdout
        \<and> parseAgentOutput (JSON_parse js) stdout (AgentAssignment.role ?a) = Inr JNull
      \<longrightarrow> status ?v = Error
          \<and> AgentVerdict.verdict ?v = Proceed_with_changes
          \<and> AgentVerdict.confidence ?v = 3 / 10
          \<and> raw_output ?v = JNull
          \<and> error ?v = Some (''Agent failed: '' @ null_message)"
  proof (intro allI impI, elim conjE)
    fix cmd args stdout
    assume "?line = Inr (cmd, args)"
      and "execFileAsync js cmd args (repo_root config) (timeout_seconds config * 1000) = Inr stdout"
      and "parseAgentOutput (JSON_parse js) stdout (AgentAssignment.role ?a) = Inr JNull"
    then have "?v = invoke_catch js ?a config (Exn False ''TypeError'' null_message)"
      by (rule settled_null)
    then show "status ?v = Error
          \<and> AgentVerdict.verdict ?v = Proceed_with_changes
          \<and> AgentVerdict.confidence ?v = 3 / 10
          \<and> raw_output ?v = JNull
          \<and> error ?v = Some (''Agent failed: '' @ null_message)"
      by (simp add: invoke_catch_def)
  qed
  have success: "\<forall>cmd args stdout payload. ?line = Inr (cmd, args)
        \<and> execFileAsync js cmd args (repo_root config) (timeout_seconds config * 1000) = Inr stdout
        \<and> parseAgentOutput (JSON_parse js) stdout (AgentAssignment.role ?a) = Inr payload
        \<and> payload \<noteq> JNull
      \<longrightarrow> status ?v = Completed \<and> raw_output ?v = payload \<and> error ?v = None"
  proof (intro allI impI, elim conjE)
    fix cmd args stdout payload
    assume "?line = Inr (cmd, args)"
      and "execFileAsync js cmd args (repo_root config) (timeout_seconds config * 1000) = Inr stdout"
      and "parseAgentOutput (JSON_parse js) stdout (AgentAssignment.role ?a) = Inr payload"
      and "payload \<noteq> JNull"
    then have "?v = \<lparr>AgentVerdict.role = AgentAssignment.role ?a,
       AgentVerdict.engine = AgentAssignment.engine ?a,
       AgentVerdict.model = AgentAssignment.model ?a,
       AgentVerdict.verdict = verdict_field (property payload ''verdict''),
       AgentVerdict.confidence = confidence_field (property payload ''confidence''),
       raw_output = payload, status = Completed, error = None\<rparr>"
      by (rule settled_success)
    then show "status ?v = Completed \<and> raw_output ?v = payload \<and> error ?v = None"
      by simp
  qed
  have completed: "status ?v = Completed
      \<longrightarrow> (\<exists>cmd args stdout payload. ?line = Inr (cmd, args)
            \<and> execFileAsync js cmd args (repo_root config) (timeout_seconds config * 1000)
                = Inr stdout
            \<and> parseAgentOutput (JSON_parse js) stdout (AgentAssignment.role ?a) = Inr payload
            \<and> payload \<noteq> JNull \<and> raw_output ?v = payload \<and> error ?v = None)"
    by (intro impI) (rule settled_completed)
  show "let a = filter (\<lambda>a. via a = Subprocess) assignments ! i;
            v = fst (executeAgents js assignments input config) ! i
        in v = settled_verdict a (invokeExternal js a input config)
           \<and> AgentVerdict.role v = AgentAssignment.role a
           \<and> AgentVerdict.engine v = AgentAssignment.engine a
           \<and> AgentVerdict.model v = AgentAssignment.model a
           \<and> (status v = Completed
              \<or> (AgentVerdict.verdict v = Proceed_with_changes
                 \<and> AgentVerdict.confidence v = 3 / 10
                 \<and> raw_output v = JNull \<and> error v \<noteq> None))
           \<and> (\<forall>reason. invokeExternal js a input config = Inl reason
                 \<longrightarrow> status v = Error
                     \<and> AgentVerdict.verdict v = Proceed_with_changes
                     \<and> AgentVerdict.confidence v = 3 / 10
                     \<and> raw_output v = JNull
                     \<and> error v = Some (''Unexpected failure: '' @ exn_toString reason))
           \<and> ((\<exists>reason. invokeExternal js a input config = Inl reason)
                 = (AgentAssignment.engine a = Claude))
           \<and> (\<forall>cmd args err.
                 command_line (AgentAssignment.engine a)
                   (buildStructuredPrompt js (AgentAssignment.role a) input) = Inr (cmd, args)
                 \<and> execFileAsync js cmd args (repo_root config) (timeout_seconds config * 1000)
                     = Inl err
                 \<longrightarrow> status v = (if killed err then Timeout else Error)
                     \<and> AgentVerdict.verdict v = Proceed_with_changes
                     \<and> AgentVerdict.confidence v = 3 / 10
                     \<and> raw_output v = JNull
                     \<and> error v = Some (if killed err
                          then ''Agent timed out after ''
                                 @ Number_toString js (timeout_seconds config) @ ''s''
                          else ''Agent failed: '' @ message err))
           \<and> (\<forall>cmd args stdout.
                 command_line (AgentAssignment.engine a)
                   (buildStructuredPrompt js (AgentAssignment.role a) input) = Inr (cmd, args)
                 \<and> execFileAsync js cmd args (repo_root config) (timeout_seconds config * 1000)
                     = Inr stdout
                 \<and> parseAgentOutput (JSON_parse js) stdout (AgentAssignment.role a) = Inr JNull
                 \<longrightarrow> status v = Error
                     \<and> AgentVerdict.verdict v = Proceed_with_changes
                     \<and> AgentVerdict.confidence v = 3 / 10
                     \<and> raw_output v = JNull
                     \<and> error v = Some (''Agent failed: '' @ null_message))
           \<and> (\<forall>cmd args stdout payload.
                 command_line (AgentAssignment.engine a)
                   (buildStructuredPrompt js (AgentAssignment.role a) input) = Inr (cmd, args)
                 \<and> execFileAsync js cmd args (repo_root config) (timeout_seconds config * 1000)
                     = Inr stdout
                 \<and> parseAgentOutput (JSON_parse js) stdout (AgentAssignment.role a) = Inr payload
                 \<and> payload \<noteq> JNull
                 \<longrightarrow> status v = Completed \<and> raw_output v = payload \<and> error v = None)
           \<and> (status v = Completed
                 \<longrightarrow> (\<exists>cmd args stdout payload.
                       command_line (AgentAssignment.engine a)
                         (buildStructuredPrompt js (AgentAssignment.role a) input) = Inr (cmd, args)
                       \<and> execFileAsync js cmd args (repo_root config)
                           (timeout_seconds config * 1000) = Inr stdout
                       \<and> parseAgentOutput (JSON_parse js) stdout (AgentAssignment.role a)
                           = Inr payload
                       \<and> payload \<noteq> JNull \<and> raw_output v = payload \<and> error v = None))"
    unfolding Let_def v
    using identity shape rejected rejects failed null success completed
    by (intro conjI) (simp_all only: simp_thms)
qed

lemma subprocess_both:
  "filter (\<lambda>a. via a = Subprocess) (resolveAgents (config_with {Codex, Gemini}))
     = [codex_assignment, gemini_assignment]"
  by (simp add: resolveAgents_def config_with_def codex_assignment_def gemini_assignment_def)

lemma codex_timed_out:
  "invokeExternal codex_times_out codex_assignment review_input (config_with {Codex, Gemini})
    = Inr \<lparr>AgentVerdict.role = Devils_advocate, AgentVerdict.engine = Codex,
       AgentVerdict.model = MODELS Codex, AgentVerdict.verdict = Proceed_with_changes,
       AgentVerdict.confidence = 3 / 10, raw_output = JNull, status = Timeout,
       error = Some ''Agent timed out after 180s''\<rparr>"
  by (simp add: invokeExternal_def command_line_def codex_assignment_def invoke_try_def
      codex_times_out_def agents_print_def invoke_catch_def config_with_def text_180)

lemma gemini_blocked:
  "invokeExternal codex_times_out gemini_assignment review_input (config_with {Codex, Gemini})
    = Inr \<lparr>AgentVerdict.role = Architecture_critic, AgentVerdict.engine = Gemini,
       AgentVerdict.model = MODELS Gemini, AgentVerdict.verdict = Block,
       AgentVerdict.confidence = 9 / 10,
       raw_output = JObject [(''verdict'', JString ''block''), (''confidence'', JNumber (9 / 10))],
       status = Completed, error = None\<rparr>"
  by (simp add: invokeExternal_def command_line_def gemini_assignment_def invoke_try_def
      codex_times_out_def agents_print_def parseAgentOutput_def block_parsed get_property_def
      property_def verdict_field_def isVerdict_def VALID_VERDICTS_def confidence_field_def)

lemma claude_rejected:
  "invokeExternal js claude_subprocess_assignment input config
    = Inl (Exn False ''Error'' ''Unsupported external engine: claude'')"
  by (simp add: invokeExternal_def command_line_def claude_subprocess_assignment_def
      engine_name_def)

lemma codex_failed:
  "invokeExternal codex_fails_gemini_null codex_assignment review_input
      (config_with {Codex, Gemini})
    = Inr \<lparr>AgentVerdict.role = Devils_advocate, AgentVerdict.engine = Codex,
       AgentVerdict.model = MODELS Codex, AgentVerdict.verdict = Proceed_with_changes,
       AgentVerdict.confidence = 3 / 10, raw_output = JNull, status = Error,
       error = Some ''Agent failed: Command failed: npx codex exec''\<rparr>"
  by (simp add: invokeExternal_def command_line_def codex_assignment_def invoke_try_def
      codex_fails_gemini_null_def agents_print_def invoke_catch_def)

lemma clean_null: "cleaned ''null'' = ''null''" by code_simp

lemma gemini_null:
  "invokeExternal codex_fails_gemini_null gemini_assignment review_input
      (config_with {Codex, Gemini})
    = Inr \<lparr>AgentVerdict.role = Architecture_critic, AgentVerdict.engine = Gemini,
       AgentVerdict.model = MODELS Gemini, AgentVerdict.verdict = Proceed_with_changes,
       AgentVerdict.confidence = 3 / 10, raw_output = JNull, status = Error,
       error = Some (''Agent failed: '' @ null_message)\<rparr>"
  by (simp add: invokeExternal_def command_line_def gemini_assignment_def invoke_try_cases
      codex_fails_gemini_null_def agents_print_def invoke_catch_def parseAgentOutput_def
      clean_null JSON_null)

theorem executeAgents_contains_failures_witness:
  "map status (fst (executeAgents codex_times_out
       [codex_assignment, gemini_assignment, claude_subprocess_assignment]
       review_input (config_with {Codex, Gemini}))) = [Timeout, Completed, Error]
   \<and> map AgentVerdict.verdict (fst (executeAgents codex_times_out
       [codex_assignment, gemini_assignment, claude_subprocess_assignment]
       review_input (config_with {Codex, Gemini})))
       = [Proceed_with_changes, Block, Proceed_with_changes]
   \<and> map error (fst (executeAgents codex_times_out
       [codex_assignment, gemini_assignment, claude_subprocess_assignment]
       review_input (config_with {Codex, Gemini})))
       = [Some ''Agent timed out after 180s'', None,
          Some ''Unexpected failure: Error: Unsupported external engine: claude'']
   \<and> map status (fst (executeAgents codex_fails_gemini_null
       (resolveAgents (config_with {Codex, Gemini}))
       review_input (config_with {Codex, Gemini}))) = [Error, Error]
   \<and> map error (fst (executeAgents codex_fails_gemini_null
       (resolveAgents (config_with {Codex, Gemini}))
       review_input (config_with {Codex, Gemini})))
       = [Some ''Agent failed: Command failed: npx codex exec'',
          Some (''Agent failed: '' @ null_message)]"
proof -
  let ?cfg = "config_with {Codex, Gemini}"
  let ?three = "[codex_assignment, gemini_assignment, claude_subprocess_assignment]"
  let ?out = "fst (executeAgents codex_times_out ?three review_input ?cfg)"
  have sub: "filter (\<lambda>a. via a = Subprocess) ?three = ?three"
    by (simp add: codex_assignment_def gemini_assignment_def claude_subprocess_assignment_def)
  note inst = executeAgents_contains_failures [of codex_times_out ?three review_input ?cfg, unfolded sub Let_def]
  from inst have len: "length ?out = length ?three"
    by (rule conjunct1)
  have first: "?out = [settled_verdict codex_assignment
        (invokeExternal codex_times_out codex_assignment review_input ?cfg),
      settled_verdict gemini_assignment
        (invokeExternal codex_times_out gemini_assignment review_input ?cfg),
      settled_verdict claude_subprocess_assignment
        (invokeExternal codex_times_out claude_subprocess_assignment review_input ?cfg)]"
    unfolding executeAgents_verdicts sub by simp
  have second: "fst (executeAgents codex_fails_gemini_null (resolveAgents ?cfg) review_input ?cfg)
      = [settled_verdict codex_assignment
          (invokeExternal codex_fails_gemini_null codex_assignment review_input ?cfg),
         settled_verdict gemini_assignment
          (invokeExternal codex_fails_gemini_null gemini_assignment review_input ?cfg)]"
    by (simp add: executeAgents_verdicts subprocess_both)
  from len show ?thesis
    unfolding first second
    by (simp add: codex_timed_out gemini_blocked claude_rejected codex_failed gemini_null
        settled_verdict_def exn_toString_def)
qed

text \<open>
  C6 (amended). From a parsed payload other than \<open>null\<close> the invoker takes the decision
  when the \<open>verdict\<close> property is one of the three decision strings and
  proceed_with_changes otherwise (missing, not a string, or another string), and the
  confidence when the \<open>confidence\<close> property is a number and 0.5 otherwise. The fallback
  payload of the normalizer carries the same default decision, but confidence 0.4.
\<close>

theorem field_defaults:
  "((\<forall>s. v \<noteq> Some (JString s)) \<longrightarrow> verdict_field v = Proceed_with_changes)
   \<and> (s \<notin> {''proceed'', ''proceed_with_changes'', ''block''}
        \<longrightarrow> verdict_field (Some (JString s)) = Proceed_with_changes)
   \<and> verdict_field (Some (JString ''proceed'')) = Proceed
   \<and> verdict_field (Some (JString ''proceed_with_changes'')) = Proceed_with_changes
   \<and> verdict_field (Some (JString ''block'')) = Block
   \<and> ((\<forall>n. w \<noteq> Some (JNumber n)) \<longrightarrow> confidence_field w = 5 / 10)
   \<and> confidence_field (Some (JNumber n)) = n
   \<and> (payload \<noteq> JNull
        \<and> command_line (AgentAssignment.engine a)
             (buildStructuredPrompt js (AgentAssignment.role a) input) = Inr (cmd, args)
        \<and> execFileAsync js cmd args (repo_root config) (timeout_seconds config * 1000)
             = Inr stdout
        \<and> parseAgentOutput (JSON_parse js) stdout (AgentAssignment.role a) = Inr payload
        \<longrightarrow> (\<exists>result. invokeExternal js a input config = Inr result
              \<and> status result = Completed
              \<and> raw_output result = payload
              \<and> AgentVerdict.verdict result = verdict_field (property payload ''verdict'')
              \<and> AgentVerdict.confidence result
                  = confidence_field (property payload ''confidence'')))
   \<and> verdict_field (property (fallback_payload r output) ''verdict'') = Proceed_with_changes
   \<and> confidence_field (property (fallback_payload r output) ''confidence'') = 4 / 10"
proof (intro conjI impI)
  assume "\<forall>s. v \<noteq> Some (JString s)"
  then show "verdict_field v = Proceed_with_changes"
    by (auto simp: verdict_field_def isVerdict_def split: option.splits json.splits)
next
  assume "s \<notin> {''proceed'', ''proceed_with_changes'', ''block''}"
  then show "verdict_field (Some (JString s)) = Proceed_with_changes"
    by (simp add: verdict_field_def isVerdict_def VALID_VERDICTS_def)
next
  show "verdict_field (Some (JString ''proceed'')) = Proceed"
    by (simp add: verdict_field_def isVerdict_def VALID_VERDICTS_def)
next
  show "verdict_field (Some (JString ''proceed_with_changes'')) = Proceed_with_changes"
    by (simp add: verdict_field_def isVerdict_def VALID_VERDICTS_def)
next
  show "verdict_field (Some (JString ''block'')) = Block"
    by (simp add: verdict_field_def isVerdict_def VALID_VERDICTS_def)
next
  assume "\<forall>n. w \<noteq> Some (JNumber n)"
  then show "confidence_field w = 5 / 10"
    by (auto simp: confidence_field_def split: option.splits json.splits)
next
  show "confidence_field (Some (JNumber n)) = n"
    by (simp add: confidence_field_def)
next
  assume "payload \<noteq> JNull
        \<and> command_line (AgentAssignment.engine a)
             (buildStructuredPrompt js (AgentAssignment.role a) input) = Inr (cmd, args)
        \<and> execFileAsync js cmd args (repo_root config) (timeout_seconds config * 1000)
             = Inr stdout
        \<and> parseAgentOutput (JSON_parse js) stdout (AgentAssignment.role a) = Inr payload"
  then show "\<exists>result. invokeExternal js a input config = Inr result
              \<and> status result = Completed
              \<and> raw_output result = payload
              \<and> AgentVerdict.verdict result = verdict_field (property payload ''verdict'')
              \<and> AgentVerdict.confidence result
                  = confidence_field (property payload ''confidence'')"
    by (simp add: invokeExternal_def Let_def invoke_try_def get_property_def)
next
  show "verdict_field (property (fallback_payload r output) ''verdict'') = Proceed_with_changes"
    by (simp add: property_def fallback_payload_def verdict_field_def isVerdict_def
        VALID_VERDICTS_def)
next
  show "confidence_field (property (fallback_payload r output) ''confidence'') = 4 / 10"
    by (simp add: property_def fallback_payload_def confidence_field_def)
qed

theorem field_defaults_witness:
  "JObject [] \<noteq> JNull
   \<and> parseAgentOutput JSON_parse_model ''{}'' Devils_advocate = Inr (JObject [])
   \<and> invokeExternal (agents_print (\<lambda>cmd. Inr ''{}'')) codex_assignment review_input
        (config_with {Codex})
      = Inr \<lparr>AgentVerdict.role = Devils_advocate, AgentVerdict.engine = Codex,
          AgentVerdict.model = MODELS Codex, AgentVerdict.verdict = Proceed_with_changes,
          AgentVerdict.confidence = 5 / 10, raw_output = JObject [], status = Completed,
          error = None\<rparr>
   \<and> verdict_field (Some (JString ''maybe'')) = Proceed_with_changes
   \<and> verdict_field (Some (JNumber 1)) = Proceed_with_changes
   \<and> confidence_field (Some (JString ''high'')) = 5 / 10"
proof -
  let ?js = "agents_print (\<lambda>cmd. Inr ''{}'')"
  let ?args = "[''codex'', ''exec'', ''--model'', MODELS Codex, ''--model-reasoning-effort'',
      ''high'', ''-q'', buildStructuredPrompt ?js Devils_advocate review_input]"
  have clean: "cleaned ''{}'' = ''{}''" by code_simp
  have parsed: "parseAgentOutput JSON_parse_model ''{}'' Devils_advocate = Inr (JObject [])"
    by (simp add: parseAgentOutput_def clean JSON_empty)
  have line: "command_line (AgentAssignment.engine codex_assignment)
      (buildStructuredPrompt ?js (AgentAssignment.role codex_assignment) review_input)
        = Inr (''npx'', ?args)"
    by (simp add: command_line_def codex_assignment_def)
  have ran: "execFileAsync ?js ''npx'' ?args (repo_root (config_with {Codex}))
      (timeout_seconds (config_with {Codex}) * 1000) = Inr ''{}''"
    by (simp add: agents_print_def)
  have parsed': "parseAgentOutput (JSON_parse ?js) ''{}'' (AgentAssignment.role codex_assignment)
      = Inr (JObject [])"
    using parsed by (simp add: agents_print_def codex_assignment_def)
  note inst = field_defaults [where v = "Some (JNumber 1)" and s = "''maybe''"
      and w = "Some (JString ''high'')" and payload = "JObject []" and a = codex_assignment
      and js = ?js and input = review_input and cmd = "''npx''" and args = ?args
      and config = "config_with {Codex}" and stdout = "''{}''"]
  from inst line ran parsed'
  obtain result where r: "invokeExternal ?js codex_assignment review_input (config_with {Codex})
        = Inr result"
      "status result = Completed" "raw_output result = JObject []"
      "AgentVerdict.verdict result = verdict_field (property (JObject []) ''verdict'')"
      "AgentVerdict.confidence result = confidence_field (property (JObject []) ''confidence'')"
    by blast
  have whole: "invokeExternal ?js codex_assignment review_input (config_with {Codex})
      = Inr \<lparr>AgentVerdict.role = Devils_advocate, AgentVerdict.engine = Codex,
          AgentVerdict.model = MODELS Codex, AgentVerdict.verdict = Proceed_with_changes,
          AgentVerdict.confidence = 5 / 10, raw_output = JObject [], status = Completed,
          error = None\<rparr>"
    using parsed' line ran
    by (simp add: invokeExternal_def invoke_try_def get_property_def property_def
        verdict_field_def isVerdict_def confidence_field_def codex_assignment_def)
  from inst have "verdict_field (Some (JString ''maybe'')) = Proceed_with_changes"
      "verdict_field (Some (JNumber 1)) = Proceed_with_changes"
      "confidence_field (Some (JString ''high'')) = 5 / 10"
    by simp_all
  with parsed whole show ?thesis by simp
qed

text \<open>
  C6, as stated, fails: the default confidence of the extraction is 0.5, the confidence
  of the fallback payload is 0.4.
\<close>

theorem field_defaults_counterexample:
  "confidence_field (property (JObject []) ''confidence'') = 5 / 10
   \<and> confidence_field (property (fallback_payload Pragmatist ''Looks fine to me.'') ''confidence'')
       = 4 / 10
   \<and> confidence_field (property (JObject []) ''confidence'')
       \<noteq> confidence_field
           (property (fallback_payload Pragmatist ''Looks fine to me.'') ''confidence'')"
  by (simp add: property_def fallback_payload_def confidence_field_def)

lemma settled_role:
  "AgentVerdict.role (settled_verdict a (invokeExternal js a input config)) = AgentAssignment.role a"
  using settled_shape [of a js input config] by (simp add: Let_def)

lemma executeAgents_prompts:
  "snd (executeAgents js assignments input config)
    = map (\<lambda>a. buildSubagentInstruction js a input)
        (filter (\<lambda>a. via a = Subagent_prompt) assignments)"
  by (simp add: executeAgents_def Let_def)

text \<open>
  C10. In every resolution the pragmatist assignment is the delegated claude backend
  (engine claude, the claude model, via subagent_prompt), never a subprocess; when both
  codex and gemini are available, devils_advocate gets codex and architecture_critic
  gets gemini, both as subprocesses. So \<open>executeAgents\<close>, run on a resolution, returns
  no verdict for the pragmatist and a spawn instruction for it.
\<close>

theorem resolveAgents_pragmatist_delegated:
  "(\<forall>a \<in> set (resolveAgents config).
      AgentAssignment.role a = Pragmatist
      \<longrightarrow> AgentAssignment.engine a = Claude \<and> via a = Subagent_prompt
          \<and> AgentAssignment.model a = MODELS Claude)
   \<and> (Codex \<in> available_agents config \<and> Gemini \<in> available_agents config
        \<longrightarrow> (\<forall>a \<in> set (resolveAgents config).
              (AgentAssignment.role a = Devils_advocate
                 \<longrightarrow> AgentAssignment.engine a = Codex \<and> via a = Subprocess)
              \<and> (AgentAssignment.role a = Architecture_critic
                 \<longrightarrow> AgentAssignment.engine a = Gemini \<and> via a = Subprocess)))
   \<and> (\<forall>v \<in> set (fst (executeAgents js (resolveAgents config) input config)).
        AgentVerdict.role v \<noteq> Pragmatist)
   \<and> Pragmatist \<in> set (map SubagentSpawnInstruction.role
        (snd (executeAgents js (resolveAgents config) input config)))"
proof (intro conjI)
  show "\<forall>a \<in> set (resolveAgents config).
      AgentAssignment.role a = Pragmatist
      \<longrightarrow> AgentAssignment.engine a = Claude \<and> via a = Subagent_prompt
          \<and> AgentAssignment.model a = MODELS Claude"
    by (auto simp: resolveAgents_def Let_def)
next
  show "Codex \<in> available_agents config \<and> Gemini \<in> available_agents config
        \<longrightarrow> (\<forall>a \<in> set (resolveAgents config).
              (AgentAssignment.role a = Devils_advocate
                 \<longrightarrow> AgentAssignment.engine a = Codex \<and> via a = Subprocess)
              \<and> (AgentAssignment.role a = Architecture_critic
                 \<longrightarrow> AgentAssignment.engine a = Gemini \<and> via a = Subprocess))"
    by (auto simp: resolveAgents_def Let_def)
next
  have "\<forall>a \<in> set (filter (\<lambda>a. via a = Subprocess) (resolveAgents config)).
      AgentAssignment.role a \<noteq> Pragmatist"
    by (auto simp: resolveAgents_def Let_def)
  then show "\<forall>v \<in> set (fst (executeAgents js (resolveAgents config) input config)).
      AgentVerdict.role v \<noteq> Pragmatist"
    by (auto simp: executeAgents_verdicts settled_role)
next
  let ?p = "\<lparr>AgentAssignment.role = Pragmatist, AgentAssignment.engine = Claude,
      AgentAssignment.model = MODELS Claude, via = Subagent_prompt\<rparr>"
  let ?delegated = "filter (\<lambda>a. via a = Subagent_prompt) (resolveAgents config)"
  have "?p \<in> set (resolveAgents config)"
    by (simp add: resolveAgents_def Let_def)
  then have "?p \<in> set ?delegated"
    by simp
  then have "buildSubagentInstruction js ?p input
      \<in> set (map (\<lambda>a. buildSubagentInstruction js a input) ?delegated)"
    by (simp only: set_map) (rule imageI)
  then have "SubagentSpawnInstruction.role (buildSubagentInstruction js ?p input)
      \<in> set (map SubagentSpawnInstruction.role
            (map (\<lambda>a. buildSubagentInstruction js a input) ?delegated))"
    by (simp only: set_map) (rule imageI)
  moreover have "SubagentSpawnInstruction.role (buildSubagentInstruction js ?p input) = Pragmatist"
    by (simp add: buildSubagentInstruction_def)
  ultimately show "Pragmatist \<in> set (map SubagentSpawnInstruction.role
      (snd (executeAgents js (resolveAgents config) input config)))"
    by (simp only: executeAgents_prompts)
qed

theorem resolveAgents_pragmatist_delegated_witness:
  "Codex \<in> available_agents (config_with {Codex, Gemini})
   \<and> Gemini \<in> available_agents (config_with {Codex, Gemini})
   \<and> map AgentAssignment.engine (resolveAgents (config_with {Codex, Gemini}))
       = [Codex, Gemini, Claude]
   \<and> map via (resolveAgents (config_with {Codex, Gemini}))
       = [Subprocess, Subprocess, Subagent_prompt]
   \<and> map AgentVerdict.role (fst (executeAgents codex_times_out
         (resolveAgents (config_with {Codex, Gemini})) review_input (config_with {Codex, Gemini})))
       = [Devils_advocate, Architecture_critic]
   \<and> map SubagentSpawnInstruction.role (snd (executeAgents codex_times_out
         (resolveAgents (config_with {Codex, Gemini})) review_input (config_with {Codex, Gemini})))
       = [Pragmatist]"
proof -
  let ?cfg = "config_with {Codex, Gemini}"
  have r: "resolveAgents ?cfg =
      [codex_assignment, gemini_assignment,
       \<lparr>AgentAssignment.role = Pragmatist, AgentAssignment.engine = Claude,
        AgentAssignment.model = MODELS Claude, via = Subagent_prompt\<rparr>]"
    by (simp add: resolveAgents_def config_with_def codex_assignment_def gemini_assignment_def)
  have a: "Codex \<in> available_agents ?cfg \<and> Gemini \<in> available_agents ?cfg"
    by (simp add: config_with_def)
  have v: "map AgentVerdict.role (fst (executeAgents codex_times_out (resolveAgents ?cfg)
        review_input ?cfg)) = [Devils_advocate, Architecture_critic]"
    unfolding r by (simp add: executeAgents_verdicts settled_role codex_assignment_def
        gemini_assignment_def)
  have p: "map SubagentSpawnInstruction.role (snd (executeAgents codex_times_out
        (resolveAgents ?cfg) review_input ?cfg)) = [Pragmatist]"
    unfolding r by (simp add: executeAgents_prompts buildSubagentInstruction_def
        codex_assignment_def gemini_assignment_def)
  have e: "map AgentAssignment.engine (resolveAgents ?cfg) = [Codex, Gemini, Claude]"
    unfolding r by (simp add: codex_assignment_def gemini_assignment_def)
  have w: "map via (resolveAgents ?cfg) = [Subprocess, Subprocess, Subagent_prompt]"
    unfolding r by (simp add: codex_assignment_def gemini_assignment_def)
  from resolveAgents_pragmatist_delegated [of ?cfg codex_times_out review_input] a e w v p show ?thesis
    by blast
qed

end
